theory Spec2Isabelle
  imports Main "HOL-Library.Sublist"
begin

section \<open>JavaScript strings and values\<close>

text \<open>
  Strings are lists of characters. A value that JavaScript may leave \<^verbatim>\<open>undefined\<close> or
  \<^verbatim>\<open>null\<close> is a \<open>string option\<close>; \<^verbatim>\<open>v || ''\<close> is \<open>orEmpty v\<close>, since the empty string
  is the only falsy string.
\<close>

datatype jsError = SyntaxError | TypeError | IndexSizeError | InvalidStateError | MessageError

definition orEmpty :: "string option \<Rightarrow> string" where
  "orEmpty v = (case v of None \<Rightarrow> [] | Some s \<Rightarrow> s)"

text \<open>\<^verbatim>\<open>s.includes(sub)\<close>: \<open>sub\<close> starts at some position of \<open>s\<close>.\<close>

fun strIncludes :: "string \<Rightarrow> string \<Rightarrow> bool" where
  "strIncludes [] sub = (sub = [])"
| "strIncludes (c # cs) sub = (prefix sub (c # cs) \<or> strIncludes cs sub)"

section \<open>background.js: the variable resolver\<close>

subsection \<open>The regular expression built from a key\<close>

text \<open>
  \<^verbatim>\<open>new RegExp(`\\{\\{${key}\\}\\}`, 'g')\<close> pastes the key into the pattern without escaping
  it. A key character that is no syntax character of the pattern language stands for
  itself, and a dot stands for any character but a line terminator. A key made of such
  characters only gives a pattern of fixed length, which \<open>compileKey\<close> returns. Every
  other key (quantifiers, groups, classes, alternatives, escapes) is left to the
  JavaScript engine: the model takes the engine's global replace on such a key as the
  parameter \<open>rx\<close>, a function of the key, the replacement and the subject that returns the
  new string or the error thrown (an unterminated group is a \<open>SyntaxError\<close>).
\<close>

datatype atom = Lit char | AnyChar

definition syntaxCharacters :: "char list" where
  "syntaxCharacters =
     [CHR ''^'', CHR ''$'', CHR 0x5C, CHR ''.'', CHR ''*'', CHR ''+'', CHR ''?'',
      CHR ''('', CHR '')'', CHR ''['', CHR '']'', CHR ''{'', CHR ''}'', CHR ''|'']"

fun compileKey :: "string \<Rightarrow> atom list option" where
  "compileKey [] = Some []"
| "compileKey (c # cs) =
     (if c = CHR ''.'' then map_option ((#) AnyChar) (compileKey cs)
      else if c \<in> set syntaxCharacters then None
      else map_option ((#) (Lit c)) (compileKey cs))"

definition placeholderRegex :: "atom list \<Rightarrow> atom list" where
  "placeholderRegex atoms = Lit CHR ''{'' # Lit CHR ''{'' # atoms @ [Lit CHR ''}'', Lit CHR ''}'']"

fun atomMatches :: "atom \<Rightarrow> char \<Rightarrow> bool" where
  "atomMatches (Lit c) d = (c = d)"
| "atomMatches AnyChar d = (d \<noteq> CHR 0x0A \<and> d \<noteq> CHR 0x0D)"

text \<open>The pattern matches at the start of the subject.\<close>

fun matchHere :: "atom list \<Rightarrow> string \<Rightarrow> bool" where
  "matchHere [] s = True"
| "matchHere (a # atoms) [] = False"
| "matchHere (a # atoms) (c # cs) = (atomMatches a c \<and> matchHere atoms cs)"

subsection \<open>String.prototype.replace with a global pattern\<close>

text \<open>
  The replacement is a template: \<^verbatim>\<open>$$\<close> inserts a dollar sign, \<^verbatim>\<open>$&\<close> the matched text,
  \<^verbatim>\<open>$`\<close> the subject before the match and \<^verbatim>\<open>$'\<close> the subject after it. The patterns of
  \<open>compileKey\<close> have no capture group, so \<^verbatim>\<open>$1\<close> and \<^verbatim>\<open>$<name>\<close> stay as they are.
\<close>

fun getSubstitution :: "string \<Rightarrow> string \<Rightarrow> string \<Rightarrow> string \<Rightarrow> string" where
  "getSubstitution matched passed after [] = []"
| "getSubstitution matched passed after [c] = [c]"
| "getSubstitution matched passed after (c # d # r) =
     (if c = CHR ''$'' \<and> d = CHR ''$'' then CHR ''$'' # getSubstitution matched passed after r
      else if c = CHR ''$'' \<and> d = CHR ''&'' then matched @ getSubstitution matched passed after r
      else if c = CHR ''$'' \<and> d = CHR 0x60 then passed @ getSubstitution matched passed after r
      else if c = CHR ''$'' \<and> d = CHR 0x27 then after @ getSubstitution matched passed after r
      else c # getSubstitution matched passed after (d # r))"

text \<open>
  \<^verbatim>\<open>resolved.replace(regex, value)\<close> for the pattern of the key atoms \<open>atoms\<close>: the subject is
  scanned from the left, \<open>passed\<close> is the part of the subject already passed; a match is
  replaced and the scan goes on behind it, any other character is copied.
\<close>

function replaceMatches :: "atom list \<Rightarrow> string \<Rightarrow> string \<Rightarrow> string \<Rightarrow> string" where
  "replaceMatches atoms tpl passed [] = []"
| "replaceMatches atoms tpl passed (c # cs) =
     (let n = length (placeholderRegex atoms) in
      if matchHere (placeholderRegex atoms) (c # cs)
      then getSubstitution (take n (c # cs)) passed (drop n (c # cs)) tpl
           @ replaceMatches atoms tpl (passed @ take n (c # cs)) (drop n (c # cs))
      else c # replaceMatches atoms tpl (passed @ [c]) cs)"
  by pat_completeness auto
termination
  by (relation "measure (\<lambda>(atoms, tpl, passed, s). length s)")
     (auto simp: placeholderRegex_def)

type_synonym engine = "string \<Rightarrow> string \<Rightarrow> string \<Rightarrow> jsError + string"

text \<open>One step of the \<^verbatim>\<open>forEach\<close>: \<^verbatim>\<open>resolved.replace(regex, variables[key] || '')\<close>.\<close>

definition replaceKey :: "engine \<Rightarrow> string \<Rightarrow> string option \<Rightarrow> string \<Rightarrow> jsError + string" where
  "replaceKey rx key v resolved =
     (case compileKey key of
        Some atoms \<Rightarrow> Inr (replaceMatches atoms (orEmpty v) [] resolved)
      | None \<Rightarrow> rx key (orEmpty v) resolved)"

subsection \<open>The variable table\<close>

text \<open>
  An object is the list of its own properties in the order \<^verbatim>\<open>Object.keys\<close> lists them:
  array-index keys first, in ascending order, then the other keys in the order of
  their creation. Writing to an existing key keeps its place.
\<close>

type_synonym jsObject = "(string \<times> string option) list"

definition digitValue :: "char \<Rightarrow> nat" where
  "digitValue c = of_char c - 48"

definition isDigit :: "char \<Rightarrow> bool" where
  "isDigit c = (c \<in> set ''0123456789'')"

definition indexValue :: "string \<Rightarrow> nat" where
  "indexValue k = foldl (\<lambda>n c. 10 * n + digitValue c) 0 k"

definition isArrayIndex :: "string \<Rightarrow> bool" where
  "isArrayIndex k =
     (k \<noteq> [] \<and> list_all isDigit k \<and> (k = ''0'' \<or> hd k \<noteq> CHR ''0'') \<and> indexValue k < 4294967295)"

fun insertIndexKey :: "string \<Rightarrow> string option \<Rightarrow> jsObject \<Rightarrow> jsObject" where
  "insertIndexKey k v [] = [(k, v)]"
| "insertIndexKey k v ((k', v') # ps) =
     (if isArrayIndex k' \<and> indexValue k' < indexValue k then (k', v') # insertIndexKey k v ps
      else (k, v) # (k', v') # ps)"

definition objSet :: "jsObject \<Rightarrow> string \<Rightarrow> string option \<Rightarrow> jsObject" where
  "objSet obj k v =
     (if k \<in> fst ` set obj then map (\<lambda>(k', v'). if k' = k then (k', v) else (k', v')) obj
      else if isArrayIndex k then insertIndexKey k v obj
      else obj @ [(k, v)])"

text \<open>
  The wall clock is read once per call: \<open>date\<close>, \<open>time\<close> and \<open>datetime\<close> are the strings
  that \<^verbatim>\<open>toLocaleDateString\<close>, \<^verbatim>\<open>toLocaleTimeString\<close> and \<^verbatim>\<open>toLocaleString\<close> return.
  A field of the context may be missing; \<open>formData\<close> lists the caller's named values in
  the order of the object's keys.
\<close>

record clock =
  date :: string
  time :: string
  datetime :: string

record expansionContext =
  pageTitle :: "string option"
  pageUrl :: "string option"
  domain :: "string option"
  selectedText :: "string option"
  clipboard :: "string option"
  formData :: jsObject

definition variables :: "clock \<Rightarrow> expansionContext \<Rightarrow> jsObject" where
  "variables now context =
     foldl (\<lambda>obj (k, v). objSet obj k v)
       [(''date'', Some (date now)),
        (''time'', Some (time now)),
        (''datetime'', Some (datetime now)),
        (''page_title'', Some (orEmpty (pageTitle context))),
        (''page_url'', Some (orEmpty (pageUrl context))),
        (''selected_text'', Some (orEmpty (selectedText context))),
        (''clipboard'', Some (orEmpty (clipboard context))),
        (''domain'', Some (orEmpty (domain context)))]
       (formData context)"

subsection \<open>resolveVariables\<close>

text \<open>The body of the loop: one substitution pass over all keys; a thrown error ends it.\<close>

fun forEachKey :: "engine \<Rightarrow> jsObject \<Rightarrow> string \<Rightarrow> jsError + string" where
  "forEachKey rx [] resolved = Inr resolved"
| "forEachKey rx ((key, v) # kvs) resolved =
     (case replaceKey rx key v resolved of
        Inl e \<Rightarrow> Inl e
      | Inr r \<Rightarrow> forEachKey rx kvs r)"

definition maxIterations :: nat where
  "maxIterations = 10"

text \<open>
  The \<^verbatim>\<open>while\<close> loop. \<open>iterations\<close> is the source's counter; \<open>passes\<close> is a ghost counter of
  the passes run so far (the pass that changes nothing and breaks is a pass too), returned
  beside the result.
\<close>

function resolveLoop ::
  "engine \<Rightarrow> jsObject \<Rightarrow> string \<Rightarrow> nat \<Rightarrow> nat \<Rightarrow> (jsError + string) \<times> nat" where
  "resolveLoop rx vars resolved iterations passes =
     (if strIncludes resolved ''{{'' \<and> iterations < maxIterations then
        (case forEachKey rx vars resolved of
           Inl e \<Rightarrow> (Inl e, passes + 1)
         | Inr r \<Rightarrow>
             if r = resolved then (Inr resolved, passes + 1)
             else resolveLoop rx vars r (iterations + 1) (passes + 1))
      else (Inr resolved, passes))"
  by pat_completeness auto
termination
  by (relation "measure (\<lambda>(rx, vars, resolved, iterations, passes). maxIterations - iterations)")
     auto

declare resolveLoop.simps [simp del]

definition resolveRun :: "engine \<Rightarrow> clock \<Rightarrow> string \<Rightarrow> expansionContext \<Rightarrow> (jsError + string) \<times> nat" where
  "resolveRun rx now txt context = resolveLoop rx (variables now context) txt 0 0"

definition resolveVariables :: "engine \<Rightarrow> clock \<Rightarrow> string \<Rightarrow> expansionContext \<Rightarrow> jsError + string" where
  "resolveVariables rx now txt context = fst (resolveRun rx now txt context)"

definition estimateTokens :: "string \<Rightarrow> nat" where
  "estimateTokens txt = (length txt + 3) div 4"

section \<open>content.js: the trigger scanner\<close>

text \<open>
  Offsets and lengths are JavaScript numbers. Reading \<^verbatim>\<open>selectionStart\<close> gives
  \<open>Undefined\<close> on an element that is no form control and \<open>Null\<close> on an input whose type
  has no selection (\<^verbatim>\<open>email\<close>); arithmetic on \<open>Undefined\<close> gives \<open>NaN\<close>, and \<open>Null\<close>
  counts as 0.
\<close>

datatype jsnum = Num int | NaN | Undefined | Null

text \<open>\<^verbatim>\<open>a - n\<close> and \<^verbatim>\<open>a + n\<close> for a length \<open>n\<close>.\<close>

fun jsMinus :: "jsnum \<Rightarrow> nat \<Rightarrow> jsnum" where
  "jsMinus (Num i) n = Num (i - int n)"
| "jsMinus NaN n = NaN"
| "jsMinus Undefined n = NaN"
| "jsMinus Null n = Num (- int n)"

fun jsPlus :: "jsnum \<Rightarrow> nat \<Rightarrow> jsnum" where
  "jsPlus (Num i) n = Num (i + int n)"
| "jsPlus NaN n = NaN"
| "jsPlus Undefined n = NaN"
| "jsPlus Null n = Num (int n)"

text \<open>\<^verbatim>\<open>s.substring(0, p)\<close>: a negative or \<open>NaN\<close> end is 0, an undefined end is the length.\<close>

fun substringTo :: "string \<Rightarrow> jsnum \<Rightarrow> string" where
  "substringTo s (Num i) = take (nat i) s"
| "substringTo s NaN = []"
| "substringTo s Undefined = s"
| "substringTo s Null = []"

text \<open>\<^verbatim>\<open>s.substring(p)\<close>: a negative, \<open>NaN\<close> or undefined start is 0.\<close>

fun substringFrom :: "string \<Rightarrow> jsnum \<Rightarrow> string" where
  "substringFrom s (Num i) = drop (nat i) s"
| "substringFrom s NaN = s"
| "substringFrom s Undefined = s"
| "substringFrom s Null = s"

text \<open>
  The conversion of a number to an \<^verbatim>\<open>unsigned long\<close> argument or attribute of the DOM.
\<close>

fun toUnsignedLong :: "jsnum \<Rightarrow> nat" where
  "toUnsignedLong (Num i) = nat (i mod 4294967296)"
| "toUnsignedLong NaN = 0"
| "toUnsignedLong Undefined = 0"
| "toUnsignedLong Null = 0"

text \<open>
  The class \<^verbatim>\<open>[\w\d_-]\<close>: without the unicode flag \<^verbatim>\<open>\w\<close> is an ASCII letter, a digit or
  an underscore.
\<close>

definition isWordChar :: "char \<Rightarrow> bool" where
  "isWordChar c =
     (c \<in> set ''abcdefghijklmnopqrstuvwxyzABCDEFGHIJKLMNOPQRSTUVWXYZ0123456789_'')"

definition isTriggerChar :: "char \<Rightarrow> bool" where
  "isTriggerChar c = (isWordChar c \<or> isDigit c \<or> c = CHR ''_'' \<or> c = CHR ''-'')"

text \<open>
  Modelled from the spec: \<^verbatim>\<open>escapeRegex\<close> is called by the scanner but is not part of the
  source at hand. The spec has the scanner look for the configured prefix followed by
  word characters, so the escaped prefix is taken to match the prefix, character by
  character.

  \<open>triggerHere\<close>: the pattern \<^verbatim>\<open>prefix([\w\d_-]+)$\<close> matches the whole of \<open>s\<close>. The class is
  greedy and \<^verbatim>\<open>$\<close> is the end of the input (no multiline flag), so all that follows
  the prefix is the trigger.
\<close>

definition triggerHere :: "string \<Rightarrow> string \<Rightarrow> bool" where
  "triggerHere triggerPrefix s =
     (prefix triggerPrefix s
      \<and> drop (length triggerPrefix) s \<noteq> []
      \<and> list_all isTriggerChar (drop (length triggerPrefix) s))"

text \<open>
  \<^verbatim>\<open>beforeCursor.match(regex)\<close>: the leftmost start at which the pattern matches;
  the result is the capture group \<^verbatim>\<open>triggerMatch[1]\<close>, and \<^verbatim>\<open>triggerMatch[0]\<close> is the prefix
  followed by it.
\<close>

fun triggerMatch :: "string \<Rightarrow> string \<Rightarrow> string option" where
  "triggerMatch triggerPrefix [] =
     (if triggerHere triggerPrefix [] then Some (drop (length triggerPrefix) []) else None)"
| "triggerMatch triggerPrefix (c # cs) =
     (if triggerHere triggerPrefix (c # cs) then Some (drop (length triggerPrefix) (c # cs))
      else triggerMatch triggerPrefix cs)"

record triggerSpan =
  spanTrigger :: string
  spanStart :: jsnum
  spanEnd :: jsnum

text \<open>
  The scan of \<^verbatim>\<open>handleTriggerKey\<close> and \<^verbatim>\<open>handleTextInput\<close>: the trigger before the
  cursor and the span \<^verbatim>\<open>[cursorPos - triggerMatch[0].length, cursorPos)\<close>.
\<close>

definition scanTrigger :: "string \<Rightarrow> string \<Rightarrow> jsnum \<Rightarrow> triggerSpan option" where
  "scanTrigger triggerPrefix fullText cursorPos =
     (case triggerMatch triggerPrefix (substringTo fullText cursorPos) of
        None \<Rightarrow> None
      | Some body \<Rightarrow>
          Some \<lparr>spanTrigger = body,
                spanStart = jsMinus cursorPos (length triggerPrefix + length body),
                spanEnd = cursorPos\<rparr>)"

section \<open>content.js: configuration and template wrapping\<close>

record snippet =
  content :: string
  description :: string

record template =
  name :: string
  pre :: string
  post :: string

text \<open>
  \<^verbatim>\<open>config.snippets[k]\<close> and \<^verbatim>\<open>config.templates[k]\<close> read a plain object: a key that the
  dictionary lacks is still found when \<open>Object.prototype\<close> has a property of that name,
  and the value found there is truthy and has none of the fields of a snippet or
  template.
\<close>

datatype 'a property = Own 'a | Inherited | Absent

definition objectPrototypeNames :: "string list" where
  "objectPrototypeNames =
     [''constructor'', ''__defineGetter__'', ''__defineSetter__'', ''hasOwnProperty'',
      ''__lookupGetter__'', ''__lookupSetter__'', ''isPrototypeOf'', ''propertyIsEnumerable'',
      ''toString'', ''valueOf'', ''__proto__'', ''toLocaleString'']"

definition getProperty :: "(string \<rightharpoonup> 'a) \<Rightarrow> string \<Rightarrow> 'a property" where
  "getProperty dict k =
     (case dict k of
        Some v \<Rightarrow> Own v
      | None \<Rightarrow> if k \<in> set objectPrototypeNames then Inherited else Absent)"

text \<open>
  \<^verbatim>\<open>content.match(/^\[template:(\w+)\](.*)/s)\<close>: the name is the longest run of word
  characters behind the opening, it is not empty and a closing bracket follows it; the
  rest is all that follows the bracket, line breaks included.
\<close>

definition templateMatch :: "string \<Rightarrow> (string \<times> string) option" where
  "templateMatch s =
     (if prefix ''[template:'' s then
        (case dropWhile isWordChar (drop 10 s) of
           [] \<Rightarrow> None
         | c # rest \<Rightarrow>
             if c = CHR '']'' \<and> takeWhile isWordChar (drop 10 s) \<noteq> []
             then Some (takeWhile isWordChar (drop 10 s), rest)
             else None)
      else None)"

definition applyTemplateWrapping :: "(string \<rightharpoonup> template) \<Rightarrow> string \<Rightarrow> string" where
  "applyTemplateWrapping templates s =
     (case templateMatch s of
        None \<Rightarrow> s
      | Some (templateName, templateContent) \<Rightarrow>
          (case getProperty templates templateName of
             Own t \<Rightarrow> pre t @ templateContent @ post t
           | Inherited \<Rightarrow> ''undefined'' @ templateContent @ ''undefined''
           | Absent \<Rightarrow> s))"

section \<open>content.js: text surfaces\<close>

text \<open>
  An element of the page, as far as the content script reads and writes it. A form
  control has a value, \<open>elValue\<close>, and a selection; any element has the text nodes below it, in
  document order, and \<^verbatim>\<open>textContent\<close> is their concatenation. \<open>contentEditable\<close> is the test
  \<^verbatim>\<open>element.contentEditable === 'true' || element.isContentEditable\<close>. \<open>caret\<close> is the
  selection of the document when it lies in the element: the number of characters of
  the element's text before it. \<open>excluded\<close> is the outcome of the selector tests of
  \<^verbatim>\<open>shouldProcessElement\<close>, and \<open>inputEvents\<close> counts the \<^verbatim>\<open>input\<close> events dispatched on the
  element by the script. The value sanitization that a single-line input applies to
  an assigned value is not modelled.
\<close>

datatype tag = TEXTAREA | INPUT | OtherTag

record element =
  tagName :: tag
  inputType :: string
  elValue :: "string option"
  selectionStart :: jsnum
  selectionEnd :: jsnum
  contentEditable :: bool
  leaves :: "string list"
  caret :: "nat option"
  excluded :: bool
  inputEvents :: nat

datatype completion = Normal | Throw jsError

definition textContent :: "element \<Rightarrow> string" where
  "textContent el = concat (leaves el)"

text \<open>\<^verbatim>\<open>element.value || element.textContent || ''\<close>\<close>

definition elementText :: "element \<Rightarrow> string" where
  "elementText el =
     (case elValue el of
        None \<Rightarrow> textContent el
      | Some v \<Rightarrow> if v = [] then textContent el else v)"

text \<open>
  \<^verbatim>\<open>element.selectionStart = element.selectionEnd = p\<close>: an input without selection throws;
  otherwise both ends are set to \<open>p\<close>, at most the length of the value.
\<close>

definition setSelection :: "element \<Rightarrow> jsnum \<Rightarrow> completion \<times> element" where
  "setSelection el p =
     (if selectionStart el = Null then (Throw InvalidStateError, el)
      else
        (Normal,
         el\<lparr>selectionStart := Num (int (min (toUnsignedLong p) (length (orEmpty (elValue el))))),
            selectionEnd := Num (int (min (toUnsignedLong p) (length (orEmpty (elValue el)))))\<rparr>))"

text \<open>
  \<^verbatim>\<open>element.textContent = s\<close>: the children are replaced by one text node, or by none when
  \<open>s\<close> is empty; a selection inside the element collapses to its start.
\<close>

definition setTextContent :: "element \<Rightarrow> string \<Rightarrow> element" where
  "setTextContent el s =
     el\<lparr>leaves := (if s = [] then [] else [s]), caret := map_option (\<lambda>c. 0) (caret el)\<rparr>"

text \<open>\<^verbatim>\<open>a >= p\<close> for an integer \<open>a\<close>: false when \<open>p\<close> is \<open>NaN\<close> or undefined.\<close>

fun numGe :: "int \<Rightarrow> jsnum \<Rightarrow> bool" where
  "numGe a (Num p) = (p \<le> a)"
| "numGe a NaN = False"
| "numGe a Undefined = False"
| "numGe a Null = (0 \<le> a)"

text \<open>
  \<^verbatim>\<open>findTextNode\<close>: the walk over the text nodes; the result is the index of the first
  leaf whose end offset reaches the position, or nothing.
\<close>

fun walkTextNodes :: "string list \<Rightarrow> nat \<Rightarrow> int \<Rightarrow> jsnum \<Rightarrow> nat option" where
  "walkTextNodes [] i currentPos position = None"
| "walkTextNodes (node # nodes) i currentPos position =
     (if numGe (currentPos + int (length node)) position then Some i
      else walkTextNodes nodes (i + 1) (currentPos + int (length node)) position)"

definition findTextNode :: "element \<Rightarrow> jsnum \<Rightarrow> nat option" where
  "findTextNode el position = walkTextNodes (leaves el) 0 0 position"

text \<open>
  Modelled from the spec: \<^verbatim>\<open>document.execCommand('insertText')\<close> is the browser's. On the
  range from \<open>s\<close> to \<open>e\<close> of leaf \<open>i\<close> it deletes the covered text, inserts the new text as a
  leaf at that point and leaves the cursor behind the inserted leaf.
\<close>

definition insertText :: "element \<Rightarrow> nat \<Rightarrow> nat \<Rightarrow> nat \<Rightarrow> string \<Rightarrow> element" where
  "insertText el i s e newText =
     el\<lparr>leaves := take i (leaves el) @ [take s (leaves el ! i), newText, drop e (leaves el ! i)]
                    @ drop (Suc i) (leaves el),
        caret := Some (length (concat (take i (leaves el))) + s + length newText)\<rparr>"

text \<open>
  \<^verbatim>\<open>replaceText\<close>. In the branch of the form controls the value is assigned before the
  selection, so the element is returned also when the selection throws. In the other
  branch \<^verbatim>\<open>range.setStart\<close> and \<^verbatim>\<open>range.setEnd\<close> get the offsets of the whole text as
  offsets into the leaf found, and throw when an offset exceeds the length of the leaf;
  an end before the start collapses the range to the end.
\<close>

definition replaceText :: "element \<Rightarrow> jsnum \<Rightarrow> jsnum \<Rightarrow> string \<Rightarrow> completion \<times> element" where
  "replaceText el startPos endPos newText =
     (if tagName el = TEXTAREA \<or> tagName el = INPUT then
        (case elValue el of
           None \<Rightarrow> (Throw TypeError, el)
         | Some v \<Rightarrow>
             (case setSelection
                     (el\<lparr>elValue := Some (substringTo v startPos @ newText @ substringFrom v endPos)\<rparr>)
                     (jsPlus startPos (length newText)) of
                (Throw e, el') \<Rightarrow> (Throw e, el')
              | (Normal, el') \<Rightarrow> (Normal, el'\<lparr>inputEvents := inputEvents el' + 1\<rparr>)))
      else if contentEditable el then
        (case findTextNode el startPos of
           None \<Rightarrow> (Normal, el)
         | Some i \<Rightarrow>
             if length (leaves el ! i) < toUnsignedLong startPos then (Throw IndexSizeError, el)
             else if length (leaves el ! i) < toUnsignedLong endPos then (Throw IndexSizeError, el)
             else (Normal,
                   insertText el i (min (toUnsignedLong startPos) (toUnsignedLong endPos))
                     (toUnsignedLong endPos) newText))
      else (Normal, el))"

section \<open>content.js: the expansion controller\<close>

record config =
  enabled :: bool
  snippets :: "string \<rightharpoonup> snippet"
  templates :: "string \<rightharpoonup> template"
  triggerPrefix :: string

text \<open>An entry of \<^verbatim>\<open>expansionHistory\<close>; \<open>element\<close> is the reference to the element.\<close>

record expansionRecord =
  element :: nat
  originalText :: string
  trigger :: string
  startPos :: jsnum
  endPos :: jsnum
  expandedContent :: string
  timestamp :: nat

text \<open>
  The state of the content script: its configuration, the history, the guard, and the
  elements of the page by reference. \<open>notifications\<close> lists the calls of
  \<^verbatim>\<open>showNotification\<close> (message and type), \<open>usageMessages\<close> the \<^verbatim>\<open>TRACK_USAGE\<close> messages sent
  (snippet key and domain), \<open>formModals\<close> the elements for which \<^verbatim>\<open>showFormModal\<close> was
  called.
\<close>

record page =
  config :: config
  expansionHistory :: "expansionRecord list"
  isProcessing :: bool
  elements :: "nat \<Rightarrow> element"
  notifications :: "(string \<times> string) list"
  usageMessages :: "(string \<times> string) list"
  formModals :: "nat list"

text \<open>
  What one expansion gets from outside the script: the document and the window, the
  clipboard read and the reply to the \<^verbatim>\<open>RESOLVE_VARIABLES\<close> message, each of the two
  awaited and either fulfilled or rejected, and the clock. The text of the message is
  undefined when the snippet found has no content.
\<close>

datatype 'a awaited = Fulfilled 'a | Rejected

record response =
  resolved :: string
  tokens :: nat

record environment =
  documentTitle :: string
  locationHref :: string
  locationHostname :: string
  windowSelection :: string
  clipboardRead :: "string awaited"
  resolver :: "string option \<Rightarrow> expansionContext \<Rightarrow> response option awaited"
  dateNow :: nat

definition editableTypes :: "string list" where
  "editableTypes = [''text'', ''textarea'', ''email'', ''search'', ''url'']"

definition isEditableElement :: "element \<Rightarrow> bool" where
  "isEditableElement el =
     (tagName el = TEXTAREA
      \<or> (tagName el = INPUT \<and> inputType el \<in> set editableTypes)
      \<or> contentEditable el)"

definition shouldProcessElement :: "page \<Rightarrow> element \<Rightarrow> bool" where
  "shouldProcessElement st el =
     (if isProcessing st then False
      else if \<not> isEditableElement el then False
      else if excluded el then False
      else True)"

definition getExpansionContext :: "environment \<Rightarrow> expansionContext" where
  "getExpansionContext env =
     \<lparr>pageTitle = Some (documentTitle env),
      pageUrl = Some (locationHref env),
      domain = Some (locationHostname env),
      selectedText = Some (windowSelection env),
      clipboard = Some (case clipboardRead env of Fulfilled t \<Rightarrow> t | Rejected \<Rightarrow> []),
      formData = []\<rparr>"

text \<open>The decimal digits of a number, for the message of the token notification.\<close>

fun showNat :: "nat \<Rightarrow> string" where
  "showNat n =
     (if n < 10 then [char_of (48 + n)]
      else showNat (n div 10) @ [char_of (48 + n mod 10)])"

declare showNat.simps [simp del]

text \<open>
  Modelled from the spec: \<^verbatim>\<open>showNotification\<close> of the content script is not part of the
  source at hand. The spec has it show an advisory message to the user; the model
  records the call, message and type, and changes nothing else.
\<close>

definition showNotification :: "page \<Rightarrow> string \<Rightarrow> string \<Rightarrow> page" where
  "showNotification st message kind = st\<lparr>notifications := notifications st @ [(message, kind)]\<rparr>"

text \<open>
  \<^verbatim>\<open>expandSnippet\<close>, run to its end with no other event in between. A rejected
  \<^verbatim>\<open>await\<close> or an exception in \<^verbatim>\<open>replaceText\<close> ends the function at that point, with the
  state as it is then.
\<close>

definition expandSnippet ::
  "page \<Rightarrow> environment \<Rightarrow> nat \<Rightarrow> string \<Rightarrow> jsnum \<Rightarrow> jsnum \<Rightarrow> completion \<times> page" where
  "expandSnippet st env target trig start end =
     (let st1 = st\<lparr>isProcessing := True\<rparr> in
      case getProperty (snippets (config st1)) trig of
        Absent \<Rightarrow> (Throw TypeError, st1)
      | found \<Rightarrow>
          (case resolver env (case found of Own sn \<Rightarrow> Some (content sn) | _ \<Rightarrow> None)
                  (getExpansionContext env) of
             Rejected \<Rightarrow> (Throw MessageError, st1)
           | Fulfilled None \<Rightarrow> (Normal, st1\<lparr>isProcessing := False\<rparr>)
           | Fulfilled (Some reply) \<Rightarrow>
               (let expanded = applyTemplateWrapping (templates (config st1)) (resolved reply);
                    st2 = st1\<lparr>expansionHistory := expansionHistory st1 @
                            [\<lparr>element = target,
                              originalText = elementText (elements st1 target),
                              trigger = trig,
                              startPos = start,
                              endPos = end,
                              expandedContent = expanded,
                              timestamp = dateNow env\<rparr>]\<rparr>
                in case replaceText (elements st2 target) start end expanded of
                     (Throw e, el') \<Rightarrow> (Throw e, st2\<lparr>elements := (elements st2)(target := el')\<rparr>)
                   | (Normal, el') \<Rightarrow>
                       (let st3 = st2\<lparr>elements := (elements st2)(target := el'),
                                      usageMessages := usageMessages st2 @ [(trig, locationHostname env)]\<rparr>;
                            st4 = (if 100 < tokens reply
                                   then showNotification st3
                                          (''Expanded to ~'' @ showNat (tokens reply) @ '' tokens'') ''info''
                                   else st3)
                        in (Normal, st4\<lparr>isProcessing := False\<rparr>)))))"

text \<open>
  \<^verbatim>\<open>handleTriggerKey\<close> for a key event on the element \<open>target\<close>. The result is the
  completion of the handler and of the expansion it starts, the state, and whether
  \<^verbatim>\<open>preventDefault\<close> was called on the event.
\<close>

definition handleTriggerKey ::
  "page \<Rightarrow> environment \<Rightarrow> nat \<Rightarrow> (completion \<times> page) \<times> bool" where
  "handleTriggerKey st env target =
     (let el = elements st target;
          cursorPos = selectionStart el
      in case scanTrigger (triggerPrefix (config st)) (elementText el) cursorPos of
           None \<Rightarrow> ((Normal, st), False)
         | Some sp \<Rightarrow>
             if spanTrigger sp = ''form'' then
               (case replaceText el (spanStart sp) cursorPos [] of
                  (Throw e, el') \<Rightarrow> ((Throw e, st\<lparr>elements := (elements st)(target := el')\<rparr>), True)
                | (Normal, el') \<Rightarrow>
                    ((Normal, st\<lparr>elements := (elements st)(target := el'),
                                 formModals := formModals st @ [target]\<rparr>), True))
             else
               (case getProperty (snippets (config st)) (spanTrigger sp) of
                  Absent \<Rightarrow> ((Normal, st), True)
                | _ \<Rightarrow> (expandSnippet st env target (spanTrigger sp) (spanStart sp) cursorPos, True)))"

text \<open>The \<^verbatim>\<open>keydown\<close> listener of \<^verbatim>\<open>setupTextExpansion\<close>.\<close>

definition onKeydown ::
  "page \<Rightarrow> environment \<Rightarrow> nat \<Rightarrow> string \<Rightarrow> (completion \<times> page) \<times> bool" where
  "onKeydown st env target key =
     (if \<not> shouldProcessElement st (elements st target) then ((Normal, st), False)
      else if key = '' '' \<or> key = ''Tab'' \<or> key = ''Enter'' then handleTriggerKey st env target
      else ((Normal, st), False))"

text \<open>\<^verbatim>\<open>undoLastExpansion\<close>\<close>

definition undoLastExpansion :: "page \<Rightarrow> completion \<times> page" where
  "undoLastExpansion st =
     (if length (expansionHistory st) = 0 then
        (Normal, showNotification st ''No expansions to undo'' ''info'')
      else
        (let lastExpansion = last (expansionHistory st);
             st1 = st\<lparr>expansionHistory := butlast (expansionHistory st)\<rparr>;
             el = elements st1 (element lastExpansion)
         in if tagName el = TEXTAREA \<or> tagName el = INPUT then
              (case setSelection (el\<lparr>elValue := Some (originalText lastExpansion)\<rparr>)
                      (endPos lastExpansion) of
                 (Throw e, el') \<Rightarrow>
                   (Throw e, st1\<lparr>elements := (elements st1)(element lastExpansion := el')\<rparr>)
               | (Normal, el') \<Rightarrow>
                   (Normal,
                    showNotification (st1\<lparr>elements := (elements st1)(element lastExpansion := el')\<rparr>)
                      (''Undid expansion of :'' @ trigger lastExpansion) ''success''))
            else if contentEditable el then
              (Normal,
               showNotification
                 (st1\<lparr>elements := (elements st1)
                          (element lastExpansion := setTextContent el (originalText lastExpansion))\<rparr>)
                 (''Undid expansion of :'' @ trigger lastExpansion) ''success'')
            else
              (Normal,
               showNotification st1 (''Undid expansion of :'' @ trigger lastExpansion) ''success'')))"

text \<open>
  The reply of the background script to \<^verbatim>\<open>RESOLVE_VARIABLES\<close> when the message is
  delivered: \<^verbatim>\<open>{resolved, tokens: estimateTokens(resolved)}\<close>. With an undefined text
  \<^verbatim>\<open>resolved.includes\<close> throws in the listener, as does a thrown error of the resolver, and
  the sender gets no response.
\<close>

definition backgroundReply ::
  "engine \<Rightarrow> clock \<Rightarrow> string option \<Rightarrow> expansionContext \<Rightarrow> response option awaited" where
  "backgroundReply rx now message ctx =
     (case message of
        None \<Rightarrow> Fulfilled None
      | Some s \<Rightarrow>
          (case resolveVariables rx now s ctx of
             Inl e \<Rightarrow> Fulfilled None
           | Inr r \<Rightarrow> Fulfilled (Some \<lparr>resolved = r, tokens = estimateTokens r\<rparr>)))"

section \<open>background.js: the default configuration\<close>

definition DEFAULT_TEMPLATES :: "string \<rightharpoonup> template" where
  "DEFAULT_TEMPLATES =
     [''cot'' \<mapsto>
        \<lparr>name = ''Chain of Thought'',
         pre = ''Think step-by-step:'' @ [CHR 0x0A],
         post = [CHR 0x0A, CHR 0x0A] @ ''Provide your final answer in a clear, structured format.''\<rparr>,
      ''creative'' \<mapsto>
        \<lparr>name = ''Creative Writing'',
         pre = ''You are a Pulitzer Prize-winning author. Write with:'' @ [CHR 0x0A],
         post = [CHR 0x0A, CHR 0x0A] @ ''Include vivid metaphors and rich sensory details.''\<rparr>,
      ''analysis'' \<mapsto>
        \<lparr>name = ''Deep Analysis'',
         pre = ''Analyze this thoroughly, considering multiple perspectives:'' @ [CHR 0x0A],
         post = [CHR 0x0A, CHR 0x0A] @ ''Summarize key insights and actionable recommendations.''\<rparr>]"

definition DEFAULT_SNIPPETS :: "string \<rightharpoonup> snippet" where
  "DEFAULT_SNIPPETS =
     [''hello'' \<mapsto> \<lparr>content = ''Hello! How can I assist you today?'', description = ''Simple greeting''\<rparr>,
      ''date'' \<mapsto> \<lparr>content = ''{{date}}'', description = ''Current date''\<rparr>,
      ''time'' \<mapsto> \<lparr>content = ''{{time}}'', description = ''Current time''\<rparr>,
      ''datetime'' \<mapsto> \<lparr>content = ''{{date}} {{time}}'', description = ''Current date and time''\<rparr>]"

definition defaultConfig :: config where
  "defaultConfig =
     \<lparr>enabled = True, snippets = DEFAULT_SNIPPETS, templates = DEFAULT_TEMPLATES, triggerPrefix = '':''\<rparr>"

section \<open>Pages and environments for the examples\<close>

text \<open>A textarea holding \<open>v\<close> with the cursor at \<open>cursor\<close>.\<close>

definition textareaWith :: "string \<Rightarrow> nat \<Rightarrow> element" where
  "textareaWith v cursor =
     \<lparr>tagName = TEXTAREA, inputType = ''textarea'', elValue = Some v,
      selectionStart = Num (int cursor), selectionEnd = Num (int cursor),
      contentEditable = False, leaves = [], caret = None, excluded = False, inputEvents = 0\<rparr>"

text \<open>A \<^verbatim>\<open>contenteditable\<close> element with the text nodes \<open>ls\<close> and the cursor at offset \<open>c\<close>.\<close>

definition editableDiv :: "string list \<Rightarrow> nat \<Rightarrow> element" where
  "editableDiv ls c =
     \<lparr>tagName = OtherTag, inputType = [], elValue = None,
      selectionStart = Undefined, selectionEnd = Undefined,
      contentEditable = True, leaves = ls, caret = Some c, excluded = False, inputEvents = 0\<rparr>"

text \<open>A page just loaded, with the default configuration, whose elements all are \<open>el\<close>.\<close>

definition pageOf :: "element \<Rightarrow> page" where
  "pageOf el =
     \<lparr>config = defaultConfig, expansionHistory = [], isProcessing = False,
      elements = (\<lambda>r. el), notifications = [], usageMessages = [], formModals = []\<rparr>"

definition exampleClock :: clock where
  "exampleClock = \<lparr>date = ''1/2/2026'', time = ''9:00:00 AM'', datetime = ''1/2/2026, 9:00:00 AM''\<rparr>"

definition noEngine :: engine where
  "noEngine key v s = Inl SyntaxError"

text \<open>
  An environment in which the message reaches the background script, and one in which
  \<^verbatim>\<open>sendMessage\<close> rejects.
\<close>

definition connectedEnv :: environment where
  "connectedEnv =
     \<lparr>documentTitle = ''Example'', locationHref = ''https://example.com/'',
      locationHostname = ''example.com'', windowSelection = [],
      clipboardRead = Rejected, resolver = backgroundReply noEngine exampleClock, dateNow = 0\<rparr>"

definition disconnectedEnv :: environment where
  "disconnectedEnv = connectedEnv\<lparr>resolver := (\<lambda>message ctx. Rejected)\<rparr>"

section \<open>Literal replacement\<close>

text \<open>
  The replacement as the specification words it: every occurrence of the literal text
  \<open>pat\<close> in \<open>s\<close>, found from the left, is replaced by \<open>v\<close> as it is; every other character
  stays. This definition follows the specification, not the source; the theorems below
  compare \<open>replaceKey\<close> with it.
\<close>

function replaceAllLiteral :: "string \<Rightarrow> string \<Rightarrow> string \<Rightarrow> string" where
  "replaceAllLiteral pat v [] = []"
| "replaceAllLiteral pat v (c # cs) =
     (if pat \<noteq> [] \<and> prefix pat (c # cs)
      then v @ replaceAllLiteral pat v (drop (length pat) (c # cs))
      else c # replaceAllLiteral pat v cs)"
  by pat_completeness auto
termination
  by (relation "measure (\<lambda>(pat, v, s). length s)") auto

text \<open>A key without syntax characters of the pattern language.\<close>

definition plainKey :: "string \<Rightarrow> bool" where
  "plainKey key = list_all (\<lambda>c. c \<notin> set syntaxCharacters) key"

text \<open>The keys that \<^verbatim>\<open>resolveVariables\<close> itself puts into the table.\<close>

definition ambientKeys :: "string list" where
  "ambientKeys = [''date'', ''time'', ''datetime'', ''page_title'', ''page_url'',
                  ''selected_text'', ''clipboard'', ''domain'']"

definition placeholder :: "string \<Rightarrow> string" where
  "placeholder key = ''{{'' @ key @ ''}}''"

section \<open>The resolver stops within ten passes\<close>

lemma resolveLoop_passes:
  "snd (resolveLoop rx vars current iterations passes) \<le> passes + (maxIterations - iterations)"
proof (induction rx vars current iterations passes rule: resolveLoop.induct)
  case (1 rx vars current iterations passes)
  note unfold = resolveLoop.simps [of rx vars current iterations passes]
  show ?case
  proof (cases "strIncludes current ''{{'' \<and> iterations < maxIterations")
    case False
    then show ?thesis unfolding unfold by auto
  next
    case enter: True
    show ?thesis
    proof (cases "forEachKey rx vars current")
      case (Inl e)
      with enter show ?thesis unfolding unfold by auto
    next
      case (Inr r)
      show ?thesis
      proof (cases "r = current")
        case True
        with enter Inr show ?thesis unfolding unfold by auto
      next
        case False
        with enter Inr "1.IH" [of r]
        have "snd (resolveLoop rx vars r (iterations + 1) (passes + 1))
                \<le> passes + 1 + (maxIterations - (iterations + 1))"
          by simp
        with enter Inr False show ?thesis unfolding unfold by auto
      qed
    qed
  qed
qed

lemma resolveLoop_fixpoint:
  "iterations < maxIterations \<Longrightarrow> strIncludes current ''{{'' \<Longrightarrow>
   forEachKey rx vars current = Inr current \<Longrightarrow>
   resolveLoop rx vars current iterations passes = (Inr current, passes + 1)"
  by (simp add: resolveLoop.simps [of rx vars current iterations passes])

lemmas resolver_defs =
  resolveVariables_def resolveRun_def variables_def objSet_def isArrayIndex_def isDigit_def
  replaceKey_def placeholderRegex_def syntaxCharacters_def orEmpty_def maxIterations_def

lemma self_reference_run:
  "formData ctx = [(''a'', Some ''{{a}}'')] \<Longrightarrow>
   resolveRun rx now ''{{a}}'' ctx = (Inr ''{{a}}'', 1)"
  by (simp add: resolver_defs resolveLoop.simps [of _ _ "''{{a}}''"])

text \<open>
  C1. For every engine, clock, input and context the run of \<open>resolveVariables\<close> ends (the
  loop is a total function) after at most 10 passes; at any point of the loop, a pass that
  returns its input ends the loop with that text; and with \<open>formData = {a: "{{a}}"}\<close> the
  input \<open>{{a}}\<close> comes back unchanged, after one pass.
\<close>

theorem resolveVariables_at_most_ten_passes:
  "snd (resolveRun rx now input ctx) \<le> 10
   \<and> (iterations < 10 \<and> strIncludes current ''{{'' \<and> forEachKey rx vars current = Inr current
        \<longrightarrow> resolveLoop rx vars current iterations passes = (Inr current, passes + 1))
   \<and> (formData ctx' = [(''a'', Some ''{{a}}'')]
        \<longrightarrow> resolveRun rx now ''{{a}}'' ctx' = (Inr ''{{a}}'', 1)
          \<and> resolveVariables rx now ''{{a}}'' ctx' = Inr ''{{a}}'')"
  using resolveLoop_passes [of rx "variables now ctx" input 0 0]
    resolveLoop_fixpoint [of iterations current rx vars passes]
    self_reference_run [of ctx' rx now]
  by (simp add: resolveRun_def resolveVariables_def maxIterations_def)

theorem resolveVariables_at_most_ten_passes_witness:
  "(0::nat) < 10 \<and> strIncludes ''{{a}}'' ''{{''
   \<and> forEachKey (\<lambda>key v s. Inl SyntaxError) [(''a'', Some ''{{a}}'')] ''{{a}}'' = Inr ''{{a}}''
   \<and> resolveLoop (\<lambda>key v s. Inl SyntaxError) [(''a'', Some ''{{a}}'')] ''{{a}}'' 0 0
       = (Inr ''{{a}}'', 1)
   \<and> resolveVariables (\<lambda>key v s. Inl SyntaxError)
         \<lparr>date = ''1/2/2026'', time = ''9:00:00 AM'', datetime = ''1/2/2026, 9:00:00 AM''\<rparr>
         ''{{a}}''
         \<lparr>pageTitle = None, pageUrl = None, domain = None, selectedText = None,
          clipboard = None, formData = [(''a'', Some ''{{a}}'')]\<rparr>
       = Inr ''{{a}}''"
  using resolveVariables_at_most_ten_passes
    [of "\<lambda>key v s. Inl SyntaxError"
        "\<lparr>date = ''1/2/2026'', time = ''9:00:00 AM'', datetime = ''1/2/2026, 9:00:00 AM''\<rparr>"
        "''{{a}}''"
        "\<lparr>pageTitle = None, pageUrl = None, domain = None, selectedText = None,
          clipboard = None, formData = [(''a'', Some ''{{a}}'')]\<rparr>"
        0 "''{{a}}''" "[(''a'', Some ''{{a}}'')]" 0
        "\<lparr>pageTitle = None, pageUrl = None, domain = None, selectedText = None,
          clipboard = None, formData = [(''a'', Some ''{{a}}'')]\<rparr>"]
  by (simp add: replaceKey_def placeholderRegex_def syntaxCharacters_def orEmpty_def)

section \<open>The trigger scanner\<close>

lemma triggerHere_decompose:
  "triggerHere p s \<Longrightarrow> s = p @ drop (length p) s"
  by (auto simp: triggerHere_def prefix_def)

lemma triggerMatch_sound:
  "triggerMatch p s = Some b \<Longrightarrow> b \<noteq> [] \<and> list_all isTriggerChar b \<and> suffix (p @ b) s"
proof (induction s)
  case Nil
  then show ?case by (simp add: triggerHere_def split: if_splits)
next
  case (Cons c cs)
  show ?case
  proof (cases "triggerHere p (c # cs)")
    case True
    then have body: "drop (length p) (c # cs) \<noteq> []"
      "list_all isTriggerChar (drop (length p) (c # cs))"
      by (simp_all add: triggerHere_def)
    from Cons.prems True have b: "drop (length p) (c # cs) = b" by simp
    from True have "c # cs = p @ drop (length p) (c # cs)" by (rule triggerHere_decompose)
    then have "c # cs = p @ b" unfolding b .
    then have "suffix (p @ b) (c # cs)" by (simp add: suffix_def)
    with body show ?thesis unfolding b by simp
  next
    case False
    with Cons.prems have "triggerMatch p cs = Some b" by simp
    with Cons.IH have "b \<noteq> [] \<and> list_all isTriggerChar b \<and> suffix (p @ b) cs" by simp
    then show ?thesis by (simp add: suffix_Cons)
  qed
qed

lemma triggerHere_intro:
  "b \<noteq> [] \<Longrightarrow> list_all isTriggerChar b \<Longrightarrow> triggerHere p (p @ b)"
  by (simp add: triggerHere_def)

lemma triggerMatch_complete:
  "b \<noteq> [] \<Longrightarrow> list_all isTriggerChar b \<Longrightarrow> triggerMatch p (xs @ p @ b) \<noteq> None"
proof (induction xs)
  case Nil
  then have "triggerHere p (p @ b)" by (rule triggerHere_intro)
  moreover from Nil have "p @ b \<noteq> []" by simp
  ultimately show ?case by (cases "p @ b") auto
next
  case (Cons x xs)
  then show ?case by simp
qed


text \<open>
  When \<^verbatim>\<open>selectionStart\<close> is a number, as on a textarea or a text input: with the cursor
  at offset \<open>cursor\<close> of the text \<open>t\<close>, the scanner reports a match exactly when the text
  before the cursor ends with the prefix followed by one or more of the characters
  \<^verbatim>\<open>[A-Za-z0-9_-]\<close>; the trigger reported is that run, and the span is the prefix and the
  run. \<^verbatim>\<open>"hello :sn"\<close> at offset 9 gives \<^verbatim>\<open>sn\<close> and the span from 6 to 9, \<^verbatim>\<open>"hello : "\<close> at
  offset 8 gives nothing, and nothing matches at offset 0.
\<close>

lemma scanTrigger_at_numeric_cursor:
  "(scanTrigger p t (Num (int cursor)) \<noteq> None
      \<longleftrightarrow> (\<exists>body. body \<noteq> [] \<and> list_all isTriggerChar body \<and> suffix (p @ body) (take cursor t)))
   \<and> (scanTrigger p t (Num (int cursor)) = Some sp
      \<longrightarrow> spanTrigger sp \<noteq> [] \<and> list_all isTriggerChar (spanTrigger sp)
          \<and> suffix (p @ spanTrigger sp) (take cursor t)
          \<and> spanStart sp = Num (int cursor - int (length (p @ spanTrigger sp)))
          \<and> spanEnd sp = Num (int cursor))
   \<and> scanTrigger '':'' ''hello :sn'' (Num 9)
       = Some \<lparr>spanTrigger = ''sn'', spanStart = Num 6, spanEnd = Num 9\<rparr>
   \<and> scanTrigger '':'' ''hello : '' (Num 8) = None
   \<and> scanTrigger p t (Num 0) = None"
proof (intro conjI)
  show "scanTrigger p t (Num (int cursor)) \<noteq> None
      \<longleftrightarrow> (\<exists>body. body \<noteq> [] \<and> list_all isTriggerChar body \<and> suffix (p @ body) (take cursor t))"
  proof
    assume "scanTrigger p t (Num (int cursor)) \<noteq> None"
    then obtain b where "triggerMatch p (take cursor t) = Some b"
      by (auto simp: scanTrigger_def split: option.splits)
    then show "\<exists>body. body \<noteq> [] \<and> list_all isTriggerChar body \<and> suffix (p @ body) (take cursor t)"
      using triggerMatch_sound by blast
  next
    assume "\<exists>body. body \<noteq> [] \<and> list_all isTriggerChar body \<and> suffix (p @ body) (take cursor t)"
    then obtain body xs where "body \<noteq> []" "list_all isTriggerChar body"
      "take cursor t = xs @ p @ body"
      by (auto simp: suffix_def)
    then have "triggerMatch p (take cursor t) \<noteq> None"
      using triggerMatch_complete [of body p xs] by simp
    then show "scanTrigger p t (Num (int cursor)) \<noteq> None"
      by (auto simp: scanTrigger_def split: option.splits)
  qed
next
  show "scanTrigger p t (Num (int cursor)) = Some sp
      \<longrightarrow> spanTrigger sp \<noteq> [] \<and> list_all isTriggerChar (spanTrigger sp)
          \<and> suffix (p @ spanTrigger sp) (take cursor t)
          \<and> spanStart sp = Num (int cursor - int (length (p @ spanTrigger sp)))
          \<and> spanEnd sp = Num (int cursor)"
    using triggerMatch_sound [of p "take cursor t"]
    by (auto simp: scanTrigger_def split: option.splits)
next
  show "scanTrigger '':'' ''hello :sn'' (Num 9)
       = Some \<lparr>spanTrigger = ''sn'', spanStart = Num 6, spanEnd = Num 9\<rparr>"
    by (simp add: scanTrigger_def triggerHere_def isTriggerChar_def isWordChar_def isDigit_def)
next
  show "scanTrigger '':'' ''hello : '' (Num 8) = None"
    by (simp add: scanTrigger_def triggerHere_def isTriggerChar_def isWordChar_def isDigit_def)
next
  show "scanTrigger p t (Num 0) = None"
    by (simp add: scanTrigger_def triggerHere_def)
qed

lemma scanTrigger_at_numeric_cursor_example:
  "scanTrigger '':'' ''say :hello '' (Num (int 10))
     = Some \<lparr>spanTrigger = ''hello'', spanStart = Num 4, spanEnd = Num 10\<rparr>
   \<and> list_all isTriggerChar ''hello''
   \<and> suffix ('':'' @ ''hello'') (take 10 ''say :hello '')"
  using scanTrigger_at_numeric_cursor
    [of "'':''" "''say :hello ''" 10
        "\<lparr>spanTrigger = ''hello'', spanStart = Num 4, spanEnd = Num 10\<rparr>"]
  by (simp add: scanTrigger_def triggerHere_def isTriggerChar_def isWordChar_def isDigit_def)

text \<open>
  When \<^verbatim>\<open>selectionStart\<close> is no number the cursor plays no part: with \<open>Undefined\<close> (an
  element that is no form control) the whole text is scanned, and with \<open>Null\<close> (an input
  without selection) nothing is.
\<close>

lemma scanTrigger_without_numeric_cursor:
  "(scanTrigger p t Undefined \<noteq> None
      \<longleftrightarrow> (\<exists>body. body \<noteq> [] \<and> list_all isTriggerChar body \<and> suffix (p @ body) t))
   \<and> scanTrigger p t Null = None
   \<and> scanTrigger p t NaN = None"
proof (intro conjI)
  show "scanTrigger p t Undefined \<noteq> None
      \<longleftrightarrow> (\<exists>body. body \<noteq> [] \<and> list_all isTriggerChar body \<and> suffix (p @ body) t)"
  proof
    assume "scanTrigger p t Undefined \<noteq> None"
    then obtain b where "triggerMatch p t = Some b"
      by (auto simp: scanTrigger_def split: option.splits)
    then show "\<exists>body. body \<noteq> [] \<and> list_all isTriggerChar body \<and> suffix (p @ body) t"
      using triggerMatch_sound by blast
  next
    assume "\<exists>body. body \<noteq> [] \<and> list_all isTriggerChar body \<and> suffix (p @ body) t"
    then obtain body xs where "body \<noteq> []" "list_all isTriggerChar body" "t = xs @ p @ body"
      by (auto simp: suffix_def)
    then have "triggerMatch p t \<noteq> None"
      using triggerMatch_complete [of body p xs] by simp
    then show "scanTrigger p t Undefined \<noteq> None"
      by (auto simp: scanTrigger_def split: option.splits)
  qed
next
  show "scanTrigger p t Null = None"
    by (simp add: scanTrigger_def triggerHere_def)
next
  show "scanTrigger p t NaN = None"
    by (simp add: scanTrigger_def triggerHere_def)
qed

text \<open>
  C2 fails on the code for the surfaces whose \<^verbatim>\<open>selectionStart\<close> is no number. On a
  \<^verbatim>\<open>contenteditable\<close> element with the text \<^verbatim>\<open>say :hello\<close> and the cursor at position 0,
  \<^verbatim>\<open>handleTriggerKey\<close> reads an undefined \<^verbatim>\<open>selectionStart\<close>, scans the whole text and
  reports the trigger \<^verbatim>\<open>hello\<close> with the span from \<open>NaN\<close> to \<open>Undefined\<close>, and the \<^verbatim>\<open>keydown\<close>
  listener suppresses the key, though nothing precedes the cursor. On an \<^verbatim>\<open>email\<close> input
  holding \<^verbatim>\<open>hello :sn\<close> the scan reports nothing wherever the cursor is.
\<close>

theorem handleTriggerKey_scans_whole_text_of_contenteditable:
  "caret (editableDiv [''say :hello''] 0) = Some 0
   \<and> selectionStart (editableDiv [''say :hello''] 0) = Undefined
   \<and> elementText (editableDiv [''say :hello''] 0) = ''say :hello''
   \<and> scanTrigger (triggerPrefix (config (pageOf (editableDiv [''say :hello''] 0))))
         (elementText (elements (pageOf (editableDiv [''say :hello''] 0)) 0))
         (selectionStart (elements (pageOf (editableDiv [''say :hello''] 0)) 0))
       = Some \<lparr>spanTrigger = ''hello'', spanStart = NaN, spanEnd = Undefined\<rparr>
   \<and> snd (onKeydown (pageOf (editableDiv [''say :hello''] 0)) connectedEnv 0 '' '') = True
   \<and> scanTrigger '':''
         (elementText ((textareaWith ''hello :sn'' 9)
            \<lparr>tagName := INPUT, inputType := ''email'', selectionStart := Null, selectionEnd := Null\<rparr>))
         (selectionStart ((textareaWith ''hello :sn'' 9)
            \<lparr>tagName := INPUT, inputType := ''email'', selectionStart := Null, selectionEnd := Null\<rparr>))
       = None"
proof -
  have div: "caret (editableDiv ls c) = Some c" "selectionStart (editableDiv ls c) = Undefined"
    "elementText (editableDiv [''say :hello''] c) = ''say :hello''"
    "tagName (editableDiv ls c) = OtherTag" "contentEditable (editableDiv ls c)"
    "\<not> excluded (editableDiv ls c)" for ls c
    by (simp_all add: editableDiv_def elementText_def textContent_def)
  have page: "triggerPrefix (config (pageOf el)) = '':''" "elements (pageOf el) ref = el"
    "\<not> isProcessing (pageOf el)" for el ref
    by (simp_all add: pageOf_def defaultConfig_def)
  have scan: "scanTrigger '':'' ''say :hello'' Undefined
      = Some \<lparr>spanTrigger = ''hello'', spanStart = NaN, spanEnd = Undefined\<rparr>"
    by (simp add: scanTrigger_def triggerHere_def isTriggerChar_def isWordChar_def isDigit_def)
  have found: "getProperty (snippets (config (pageOf el))) ''hello'' \<noteq> Absent" for el
    by (simp add: getProperty_def pageOf_def defaultConfig_def DEFAULT_SNIPPETS_def)
  have key: "snd (handleTriggerKey (pageOf (editableDiv [''say :hello''] 0)) connectedEnv 0) = True"
    unfolding handleTriggerKey_def Let_def
    using found [of "editableDiv [''say :hello''] 0"]
    by (simp add: page div scan split: property.splits)
  have listen: "shouldProcessElement (pageOf (editableDiv [''say :hello''] 0))
      (editableDiv [''say :hello''] 0)"
    by (simp add: shouldProcessElement_def isEditableElement_def page div)
  have email: "scanTrigger '':''
         (elementText ((textareaWith ''hello :sn'' 9)
            \<lparr>tagName := INPUT, inputType := ''email'', selectionStart := Null, selectionEnd := Null\<rparr>))
         (selectionStart ((textareaWith ''hello :sn'' 9)
            \<lparr>tagName := INPUT, inputType := ''email'', selectionStart := Null, selectionEnd := Null\<rparr>))
       = None"
    by (simp add: textareaWith_def scanTrigger_def triggerHere_def)
  from key listen email show ?thesis
    by (simp add: onKeydown_def page div scan)
qed

section \<open>Template wrapping\<close>

lemma templateMatch_marker:
  assumes "n \<noteq> []" and "list_all isWordChar n"
  shows "templateMatch (''[template:'' @ n @ '']'' @ r) = Some (n, r)"
proof -
  from assms(2) have all: "\<forall>x\<in>set n. isWordChar x" by (simp add: list_all_iff)
  have close: "\<not> isWordChar CHR '']''" by (simp add: isWordChar_def)
  have tw: "takeWhile isWordChar (n @ CHR '']'' # r) = n"
    using all close by (simp add: takeWhile_append2)
  have dw: "dropWhile isWordChar (n @ CHR '']'' # r) = CHR '']'' # r"
    using all close by (simp add: dropWhile_append2)
  show ?thesis using assms(1) tw dw by (simp add: templateMatch_def)
qed

text \<open>
  C4, as stated, fails: for a marker whose name has no entry the content comes back as it
  is, marker included, and not the rest alone.
\<close>

theorem applyTemplateWrapping_absent_name_counterexample:
  "templateMatch ''[template:zz]hello'' = Some (''zz'', ''hello'')
   \<and> (Map.empty :: string \<rightharpoonup> template) ''zz'' = None
   \<and> applyTemplateWrapping Map.empty ''[template:zz]hello'' = ''[template:zz]hello''
   \<and> applyTemplateWrapping Map.empty ''[template:zz]hello'' \<noteq> ''hello''"
  by (simp add: applyTemplateWrapping_def templateMatch_def getProperty_def
      objectPrototypeNames_def isWordChar_def)

text \<open>
  C4, amended. When the content begins with \<^verbatim>\<open>[template:name]\<close> and the lookup of the name
  finds nothing, \<open>applyTemplateWrapping\<close> returns the content unchanged, marker included.
  The marker is removed only when the name has an entry, and the result is then
  \<open>pre + rest + post\<close>. Content without a marker is returned unchanged.
\<close>

theorem applyTemplateWrapping_keeps_marker_of_absent_name:
  "(n \<noteq> [] \<and> list_all isWordChar n \<and> getProperty dict n = Absent
      \<longrightarrow> applyTemplateWrapping dict (''[template:'' @ n @ '']'' @ r)
          = ''[template:'' @ n @ '']'' @ r)
   \<and> (n \<noteq> [] \<and> list_all isWordChar n \<and> dict n = Some t
      \<longrightarrow> applyTemplateWrapping dict (''[template:'' @ n @ '']'' @ r) = pre t @ r @ post t)
   \<and> (templateMatch s = None \<longrightarrow> applyTemplateWrapping dict s = s)"
  using templateMatch_marker [of n r]
  by (simp add: applyTemplateWrapping_def getProperty_def)

theorem applyTemplateWrapping_keeps_marker_of_absent_name_witness:
  "getProperty [''cot'' \<mapsto> \<lparr>name = ''Chain of Thought'', pre = ''Think step-by-step: '', post = '' Final answer.''\<rparr>] ''zz'' = Absent
   \<and> applyTemplateWrapping [''cot'' \<mapsto> \<lparr>name = ''Chain of Thought'', pre = ''Think step-by-step: '', post = '' Final answer.''\<rparr>]
        ''[template:zz]Explain recursion'' = ''[template:zz]Explain recursion''
   \<and> applyTemplateWrapping [''cot'' \<mapsto> \<lparr>name = ''Chain of Thought'', pre = ''Think step-by-step: '', post = '' Final answer.''\<rparr>]
        ''[template:cot]Explain recursion'' = ''Think step-by-step: Explain recursion Final answer.''
   \<and> templateMatch ''Explain recursion'' = None
   \<and> applyTemplateWrapping [''cot'' \<mapsto> \<lparr>name = ''Chain of Thought'', pre = ''Think step-by-step: '', post = '' Final answer.''\<rparr>]
        ''Explain recursion'' = ''Explain recursion''"
proof -
  let ?T = "[''cot'' \<mapsto> \<lparr>name = ''Chain of Thought'', pre = ''Think step-by-step: '', post = '' Final answer.''\<rparr>]"
  have absent: "getProperty ?T ''zz'' = Absent"
    by (simp add: getProperty_def objectPrototypeNames_def)
  have w: "list_all isWordChar ''zz''" "list_all isWordChar ''cot''"
    by (simp_all add: isWordChar_def)
  have none: "templateMatch ''Explain recursion'' = None"
    by (simp add: templateMatch_def)
  from applyTemplateWrapping_keeps_marker_of_absent_name
    [of "''zz''" ?T "''Explain recursion''" _ "''Explain recursion''"] absent w none
  have a: "applyTemplateWrapping ?T ''[template:zz]Explain recursion'' = ''[template:zz]Explain recursion''"
    and c: "applyTemplateWrapping ?T ''Explain recursion'' = ''Explain recursion''"
    by simp_all
  from applyTemplateWrapping_keeps_marker_of_absent_name
    [of "''cot''" ?T "''Explain recursion''"
        "\<lparr>name = ''Chain of Thought'', pre = ''Think step-by-step: '', post = '' Final answer.''\<rparr>"] w
  have b: "applyTemplateWrapping ?T ''[template:cot]Explain recursion'' = ''Think step-by-step: Explain recursion Final answer.''"
    by simp
  from absent a b none c show ?thesis by simp
qed

section \<open>Commit on an unknown trigger\<close>

lemmas scan_defs =
  scanTrigger_def triggerHere_def isTriggerChar_def isWordChar_def isDigit_def

lemmas fixture_defs =
  pageOf_def textareaWith_def editableDiv_def defaultConfig_def DEFAULT_SNIPPETS_def
  DEFAULT_TEMPLATES_def connectedEnv_def disconnectedEnv_def exampleClock_def noEngine_def




section \<open>The guard after a failed expansion\<close>

lemma expandSnippet_rejected:
  "resolver env = (\<lambda>message ctx. Rejected) \<Longrightarrow>
   \<exists>e. expandSnippet st env target trig s e' = (Throw e, st\<lparr>isProcessing := True\<rparr>)"
  by (simp add: expandSnippet_def Let_def split: property.splits)

text \<open>
  C6 fails on the code. When the awaited \<^verbatim>\<open>sendMessage\<close> rejects, \<^verbatim>\<open>expandSnippet\<close> ends by
  the rejection with \<open>isProcessing\<close> still set, whatever the state, the element and the
  trigger; from then on \<^verbatim>\<open>shouldProcessElement\<close> refuses every element and the \<^verbatim>\<open>keydown\<close>
  listener does nothing. The last conjunct is the commit of \<^verbatim>\<open>:hello\<close> in a textarea.
\<close>

theorem expandSnippet_rejected_request_leaves_guard_set:
  "isProcessing (snd (expandSnippet st (env\<lparr>resolver := (\<lambda>message ctx. Rejected)\<rparr>) target trig s e))
   \<and> fst (expandSnippet st (env\<lparr>resolver := (\<lambda>message ctx. Rejected)\<rparr>) target trig s e) \<noteq> Normal
   \<and> \<not> shouldProcessElement
         (snd (expandSnippet st (env\<lparr>resolver := (\<lambda>message ctx. Rejected)\<rparr>) target trig s e)) el
   \<and> onKeydown (snd (expandSnippet st (env\<lparr>resolver := (\<lambda>message ctx. Rejected)\<rparr>) target trig s e))
        env' target' key
       = ((Normal, snd (expandSnippet st (env\<lparr>resolver := (\<lambda>message ctx. Rejected)\<rparr>) target trig s e)),
          False)
   \<and> isProcessing (snd (fst
         (handleTriggerKey (pageOf (textareaWith ''say :hello '' 10)) disconnectedEnv 0)))"
proof -
  obtain err where
    "expandSnippet st (env\<lparr>resolver := (\<lambda>message ctx. Rejected)\<rparr>) target trig s e
       = (Throw err, st\<lparr>isProcessing := True\<rparr>)"
    using expandSnippet_rejected [of "env\<lparr>resolver := (\<lambda>message ctx. Rejected)\<rparr>" st target trig s e]
    by auto
  moreover have "isProcessing (snd (fst
         (handleTriggerKey (pageOf (textareaWith ''say :hello '' 10)) disconnectedEnv 0)))"
    by (simp add: handleTriggerKey_def expandSnippet_def Let_def scan_defs fixture_defs
        elementText_def getProperty_def)
  ultimately show ?thesis
    by (simp add: shouldProcessElement_def onKeydown_def)
qed

text \<open>
  An exception of the splice ends the expansion in the same way: with the text in two
  leaves, \<^verbatim>\<open>range.setEnd\<close> gets an offset beyond the leaf found and throws, the record is
  already pushed and the guard stays set.
\<close>

lemma expandSnippet_failed_splice_leaves_guard_set:
  "fst (expandSnippet (pageOf (editableDiv [''say '', '':hello''] 10)) connectedEnv 0 ''hello'' (Num 4) (Num 10))
     = Throw IndexSizeError
   \<and> isProcessing (snd (expandSnippet (pageOf (editableDiv [''say '', '':hello''] 10)) connectedEnv 0
          ''hello'' (Num 4) (Num 10)))
   \<and> length (expansionHistory (snd (expandSnippet (pageOf (editableDiv [''say '', '':hello''] 10))
          connectedEnv 0 ''hello'' (Num 4) (Num 10)))) = 1"
proof -
  have reply: "resolver connectedEnv (Some ''Hello! How can I assist you today?'') ctx
      = Fulfilled (Some \<lparr>resolved = ''Hello! How can I assist you today?'', tokens = 9\<rparr>)" for ctx
    by (simp add: connectedEnv_def backgroundReply_def resolveVariables_def resolveRun_def
        resolveLoop.simps [of _ _ "''Hello! How can I assist you today?''"] estimateTokens_def)
  have found: "getProperty (snippets (config (pageOf el))) ''hello''
      = Own \<lparr>content = ''Hello! How can I assist you today?'', description = ''Simple greeting''\<rparr>" for el
    by (simp add: getProperty_def pageOf_def defaultConfig_def DEFAULT_SNIPPETS_def)
  have wrap: "applyTemplateWrapping dict ''Hello! How can I assist you today?''
      = ''Hello! How can I assist you today?''" for dict
    by (simp add: applyTemplateWrapping_def templateMatch_def)
  have splice: "replaceText (editableDiv [''say '', '':hello''] 10) (Num 4) (Num 10)
        ''Hello! How can I assist you today?''
      = (Throw IndexSizeError, editableDiv [''say '', '':hello''] 10)"
    by (simp add: replaceText_def findTextNode_def editableDiv_def)
  have page: "elements (pageOf el) ref = el" "expansionHistory (pageOf el) = []" for el ref
    by (simp_all add: pageOf_def)
  show ?thesis
    unfolding expandSnippet_def Let_def
    by (simp add: found reply wrap page splice)
qed

section \<open>Undo\<close>

text \<open>
  C9. With an empty history \<^verbatim>\<open>undoLastExpansion\<close> only shows the notification
  \<^verbatim>\<open>No expansions to undo\<close>: every element, with its text and cursor, and the history
  are as before.
\<close>

theorem undoLastExpansion_empty_history:
  "expansionHistory st = []
   \<longrightarrow> undoLastExpansion st
         = (Normal, st\<lparr>notifications := notifications st @ [(''No expansions to undo'', ''info'')]\<rparr>)
       \<and> elements (snd (undoLastExpansion st)) = elements st
       \<and> expansionHistory (snd (undoLastExpansion st)) = []"
  by (simp add: undoLastExpansion_def showNotification_def)

theorem undoLastExpansion_empty_history_witness:
  "expansionHistory (pageOf (textareaWith ''say :hello '' 10)) = []
   \<and> elements (snd (undoLastExpansion (pageOf (textareaWith ''say :hello '' 10)))) 0
       = textareaWith ''say :hello '' 10
   \<and> notifications (snd (undoLastExpansion (pageOf (textareaWith ''say :hello '' 10))))
       = [(''No expansions to undo'', ''info'')]"
  using undoLastExpansion_empty_history [of "pageOf (textareaWith ''say :hello '' 10)"]
  by (simp add: pageOf_def)

section \<open>Splice on a structured surface\<close>

lemma walkTextNodes_beyond:
  "currentPos + int (length (concat nodes)) < p \<Longrightarrow> walkTextNodes nodes i currentPos (Num p) = None"
  by (induction nodes arbitrary: i currentPos) auto

lemma walkTextNodes_in_range:
  "walkTextNodes nodes i currentPos position = Some j \<Longrightarrow> i \<le> j \<and> j < i + length nodes"
proof (induction nodes arbitrary: i currentPos)
  case Nil
  then show ?case by simp
next
  case (Cons node nodes)
  show ?case
  proof (cases "numGe (currentPos + int (length node)) position")
    case True
    with Cons.prems show ?thesis by simp
  next
    case False
    with Cons.prems have "walkTextNodes nodes (i + 1) (currentPos + int (length node)) position = Some j"
      by simp
    from Cons.IH [OF this] show ?thesis by simp
  qed
qed

text \<open>The leaf that \<^verbatim>\<open>findTextNode\<close> returns is one of the leaves of the element.\<close>

lemma findTextNode_in_range:
  "findTextNode el position = Some i \<Longrightarrow> i < length (leaves el)"
  using walkTextNodes_in_range [of "leaves el" 0 0 position i]
  by (simp add: findTextNode_def)

text \<open>
  C10. On a \<^verbatim>\<open>contenteditable\<close> element that is no form control, a start offset beyond
  the length of the text of its leaves makes \<^verbatim>\<open>findTextNode\<close> return nothing, and
  \<^verbatim>\<open>replaceText\<close> returns normally with the element unchanged.
\<close>

theorem replaceText_start_beyond_text_is_noop:
  "tagName el = OtherTag \<and> contentEditable el \<and> int (length (textContent el)) < p
   \<longrightarrow> findTextNode el (Num p) = None \<and> replaceText el (Num p) e newText = (Normal, el)"
  using walkTextNodes_beyond [of 0 "leaves el" p 0]
  by (simp add: findTextNode_def replaceText_def textContent_def)

theorem replaceText_start_beyond_text_is_noop_witness:
  "tagName (editableDiv [''say '', '':hello''] 10) = OtherTag
   \<and> contentEditable (editableDiv [''say '', '':hello''] 10)
   \<and> int (length (textContent (editableDiv [''say '', '':hello''] 10))) < 11
   \<and> findTextNode (editableDiv [''say '', '':hello''] 10) (Num 11) = None
   \<and> replaceText (editableDiv [''say '', '':hello''] 10) (Num 11) (Num 12) ''X''
       = (Normal, editableDiv [''say '', '':hello''] 10)"
  using replaceText_start_beyond_text_is_noop
    [of "editableDiv [''say '', '':hello''] 10" 11 "Num 12" "''X''"]
  by (simp add: editableDiv_def textContent_def)

section \<open>Splice and undo\<close>

lemma replaceText_form_control:
  assumes "tagName el = TEXTAREA \<or> tagName el = INPUT"
    and "elValue el = Some v" and "selectionStart el \<noteq> Null"
  shows "\<exists>el'. replaceText el a b new = (Normal, el')
           \<and> elValue el' = Some (substringTo v a @ new @ substringFrom v b)
           \<and> tagName el' = tagName el \<and> selectionStart el' \<noteq> Null"
  using assms by (auto simp: replaceText_def setSelection_def)

lemma expandSnippet_form_control:
  assumes flat: "tagName (elements st target) = TEXTAREA \<or> tagName (elements st target) = INPUT"
    and val: "elValue (elements st target) = Some v"
    and sel: "selectionStart (elements st target) \<noteq> Null"
    and found: "getProperty (snippets (config st)) trig \<noteq> Absent"
    and reply: "\<And>message ctx. resolver env message ctx = Fulfilled (Some r)"
  shows "\<exists>st2 el' x t. expandSnippet st env target trig a b = (Normal, st2)
           \<and> expansionHistory st2 = expansionHistory st @
                [\<lparr>element = target, originalText = elementText (elements st target), trigger = trig,
                  startPos = a, endPos = b, expandedContent = x, timestamp = t\<rparr>]
           \<and> elements st2 = (elements st)(target := el')
           \<and> (tagName el' = TEXTAREA \<or> tagName el' = INPUT) \<and> selectionStart el' \<noteq> Null"
proof -
  let ?x = "applyTemplateWrapping (templates (config st)) (resolved r)"
  from replaceText_form_control [OF flat val sel, of a b ?x]
  obtain el' where el': "replaceText (elements st target) a b ?x = (Normal, el')"
    "tagName el' = tagName (elements st target)" "selectionStart el' \<noteq> Null"
    by blast
  show ?thesis
  proof (cases "getProperty (snippets (config st)) trig")
    case (Own sn)
    with reply el' flat show ?thesis
      by (auto simp: expandSnippet_def Let_def showNotification_def intro!: exI [of _ el'])
  next
    case Inherited
    with reply el' flat show ?thesis
      by (auto simp: expandSnippet_def Let_def showNotification_def intro!: exI [of _ el'])
  next
    case Absent
    with found show ?thesis by simp
  qed
qed

lemma undoLastExpansion_form_control:
  assumes hist: "expansionHistory st2 = h @ [rec]"
    and flat: "tagName (elements st2 (element rec)) = TEXTAREA \<or> tagName (elements st2 (element rec)) = INPUT"
    and sel: "selectionStart (elements st2 (element rec)) \<noteq> Null"
  shows "\<exists>st3. undoLastExpansion st2 = (Normal, st3)
           \<and> expansionHistory st3 = h
           \<and> elValue (elements st3 (element rec)) = Some (originalText rec)
           \<and> selectionStart (elements st3 (element rec))
               = Num (int (min (toUnsignedLong (endPos rec)) (length (originalText rec))))
           \<and> selectionEnd (elements st3 (element rec))
               = Num (int (min (toUnsignedLong (endPos rec)) (length (originalText rec))))"
  using assms
  by (simp add: undoLastExpansion_def Let_def setSelection_def showNotification_def orEmpty_def)

text \<open>
  On a form control the round trip holds: the splice of an expansion followed by the
  undo gives back the value, with the cursor at the end of the span. (A string has
  fewer than \<open>2^32\<close> characters.)
\<close>

lemma form_control_splice_then_undo:
  assumes flat: "tagName (elements st target) = TEXTAREA \<or> tagName (elements st target) = INPUT"
    and val: "elValue (elements st target) = Some v" "v \<noteq> []"
    and sel: "selectionStart (elements st target) \<noteq> Null"
    and found: "getProperty (snippets (config st)) trig \<noteq> Absent"
    and reply: "\<And>message ctx. resolver env message ctx = Fulfilled (Some r)"
    and span: "0 \<le> e" "e \<le> int (length v)" "e < 4294967296"
  shows "\<exists>st2 st3.
           expandSnippet st env target trig (Num s) (Num e) = (Normal, st2)
         \<and> undoLastExpansion st2 = (Normal, st3)
         \<and> elValue (elements st3 target) = Some v
         \<and> selectionStart (elements st3 target) = Num e
         \<and> selectionEnd (elements st3 target) = Num e
         \<and> expansionHistory st3 = expansionHistory st"
proof -
  from span have cursor: "int (min (nat (e mod 4294967296)) (length v)) = e"
    by (simp add: min_def) linarith
  from val have etext: "elementText (elements st target) = v"
    by (simp add: elementText_def)
  from expandSnippet_form_control [OF flat val(1) sel found reply, of "Num s" "Num e"]
  obtain st2 el' x t where st2: "expandSnippet st env target trig (Num s) (Num e) = (Normal, st2)"
    and hist: "expansionHistory st2 = expansionHistory st @
                [\<lparr>element = target, originalText = v, trigger = trig,
                  startPos = Num s, endPos = Num e, expandedContent = x, timestamp = t\<rparr>]"
    and els: "elements st2 = (elements st)(target := el')"
    and el': "tagName el' = TEXTAREA \<or> tagName el' = INPUT" "selectionStart el' \<noteq> Null"
    unfolding etext by blast
  let ?rec = "\<lparr>element = target, originalText = v, trigger = trig,
                  startPos = Num s, endPos = Num e, expandedContent = x, timestamp = t\<rparr>"
  from els el' have "tagName (elements st2 (element ?rec)) = TEXTAREA \<or> tagName (elements st2 (element ?rec)) = INPUT"
    "selectionStart (elements st2 (element ?rec)) \<noteq> Null"
    by simp_all
  from undoLastExpansion_form_control [OF hist this]
  obtain st3 where "undoLastExpansion st2 = (Normal, st3)"
    "expansionHistory st3 = expansionHistory st"
    "elValue (elements st3 target) = Some v"
    "selectionStart (elements st3 target) = Num (int (min (nat (e mod 4294967296)) (length v)))"
    "selectionEnd (elements st3 target) = Num (int (min (nat (e mod 4294967296)) (length v)))"
    by auto
  with st2 cursor show ?thesis by simp
qed

text \<open>
  C7 fails on the code for a \<^verbatim>\<open>contenteditable\<close> surface. With the text \<^verbatim>\<open>say :hello\<close> in one
  leaf and the cursor at its end, the expansion of the span from 4 to 10 followed by the
  undo gives the text back, but the cursor is at the start of the element and not at the
  end position 10 of the record. The commit by key on that surface records no numbers
  at all: its span is \<open>NaN\<close> to \<open>Undefined\<close>, and after the undo the cursor is at the start
  as well.
\<close>

theorem undo_on_contenteditable_does_not_restore_cursor:
  "fst (expandSnippet (pageOf (editableDiv [''say :hello''] 10)) connectedEnv 0 ''hello'' (Num 4) (Num 10))
     = Normal
   \<and> textContent (elements (snd (expandSnippet (pageOf (editableDiv [''say :hello''] 10))
          connectedEnv 0 ''hello'' (Num 4) (Num 10))) 0)
     = ''say Hello! How can I assist you today?''
   \<and> map endPos (expansionHistory (snd (expandSnippet (pageOf (editableDiv [''say :hello''] 10))
          connectedEnv 0 ''hello'' (Num 4) (Num 10))))
     = [Num 10]
   \<and> elements (snd (undoLastExpansion (snd (expandSnippet (pageOf (editableDiv [''say :hello''] 10))
          connectedEnv 0 ''hello'' (Num 4) (Num 10))))) 0
     = editableDiv [''say :hello''] 0
   \<and> map (\<lambda>r. (startPos r, endPos r))
        (expansionHistory (snd (fst (handleTriggerKey (pageOf (editableDiv [''say :hello''] 10))
          connectedEnv 0))))
     = [(NaN, Undefined)]
   \<and> elements (snd (undoLastExpansion (snd (fst (handleTriggerKey
          (pageOf (editableDiv [''say :hello''] 10)) connectedEnv 0))))) 0
     = editableDiv [''say :hello''] 0"
proof -
  have reply: "resolver connectedEnv (Some ''Hello! How can I assist you today?'') ctx
      = Fulfilled (Some \<lparr>resolved = ''Hello! How can I assist you today?'', tokens = 9\<rparr>)" for ctx
    by (simp add: connectedEnv_def backgroundReply_def resolveVariables_def resolveRun_def
        resolveLoop.simps [of _ _ "''Hello! How can I assist you today?''"] estimateTokens_def)
  have found: "getProperty (snippets (config (pageOf el))) ''hello''
      = Own \<lparr>content = ''Hello! How can I assist you today?'', description = ''Simple greeting''\<rparr>" for el
    by (simp add: getProperty_def pageOf_def defaultConfig_def DEFAULT_SNIPPETS_def)
  have wrap: "applyTemplateWrapping dict ''Hello! How can I assist you today?''
      = ''Hello! How can I assist you today?''" for dict
    by (simp add: applyTemplateWrapping_def templateMatch_def)
  have splice: "replaceText (editableDiv [''say :hello''] 10) (Num 4) (Num 10)
        ''Hello! How can I assist you today?''
      = (Normal, (editableDiv [''say :hello''] 10)
           \<lparr>leaves := [''say '', ''Hello! How can I assist you today?'', []], caret := Some 38\<rparr>)"
    by (simp add: replaceText_def findTextNode_def insertText_def editableDiv_def)
  have noop: "replaceText (editableDiv [''say :hello''] 10) NaN Undefined
        ''Hello! How can I assist you today?''
      = (Normal, editableDiv [''say :hello''] 10)"
    by (simp add: replaceText_def findTextNode_def editableDiv_def)
  have scan: "scanTrigger '':'' ''say :hello'' Undefined
      = Some \<lparr>spanTrigger = ''hello'', spanStart = NaN, spanEnd = Undefined\<rparr>"
    by (simp add: scanTrigger_def triggerHere_def isTriggerChar_def isWordChar_def isDigit_def)
  have etext: "elementText (editableDiv [''say :hello''] 10) = ''say :hello''"
    by (simp add: elementText_def textContent_def editableDiv_def)
  have div: "tagName (editableDiv ls c) = OtherTag" "contentEditable (editableDiv ls c)"
    "selectionStart (editableDiv ls c) = Undefined" for ls c
    by (simp_all add: editableDiv_def)
  have expand: "expandSnippet (pageOf (editableDiv [''say :hello''] 10)) connectedEnv 0 ''hello'' (Num 4) (Num 10)
      = (Normal, (pageOf (editableDiv [''say :hello''] 10))
          \<lparr>expansionHistory :=
             [\<lparr>element = 0, originalText = ''say :hello'', trigger = ''hello'', startPos = Num 4,
               endPos = Num 10, expandedContent = ''Hello! How can I assist you today?'',
               timestamp = 0\<rparr>],
           elements := (\<lambda>r. editableDiv [''say :hello''] 10)
             (0 := (editableDiv [''say :hello''] 10)
                \<lparr>leaves := [''say '', ''Hello! How can I assist you today?'', []], caret := Some 38\<rparr>),
           usageMessages := [(''hello'', ''example.com'')]\<rparr>)"
    unfolding expandSnippet_def Let_def
    by (simp add: found reply wrap) (simp add: pageOf_def splice etext connectedEnv_def wrap)
  have upd: "(\<lambda>r. el)(k := el) = (\<lambda>r. el)" for el :: element and k :: nat
    by (simp add: fun_eq_iff)
  have expand': "expandSnippet (pageOf (editableDiv [''say :hello''] 10)) connectedEnv 0 ''hello'' NaN Undefined
      = (Normal, (pageOf (editableDiv [''say :hello''] 10))
          \<lparr>expansionHistory :=
             [\<lparr>element = 0, originalText = ''say :hello'', trigger = ''hello'', startPos = NaN,
               endPos = Undefined, expandedContent = ''Hello! How can I assist you today?'',
               timestamp = 0\<rparr>],
           usageMessages := [(''hello'', ''example.com'')]\<rparr>)"
    unfolding expandSnippet_def Let_def
    by (simp add: found reply wrap) (simp add: pageOf_def noop etext connectedEnv_def wrap upd)
  have page: "triggerPrefix (config (pageOf el)) = '':''" "elements (pageOf el) ref = el" for el ref
    by (simp_all add: pageOf_def defaultConfig_def)
  have commit: "fst (handleTriggerKey (pageOf (editableDiv [''say :hello''] 10)) connectedEnv 0)
      = (Normal, (pageOf (editableDiv [''say :hello''] 10))
          \<lparr>expansionHistory :=
             [\<lparr>element = 0, originalText = ''say :hello'', trigger = ''hello'', startPos = NaN,
               endPos = Undefined, expandedContent = ''Hello! How can I assist you today?'',
               timestamp = 0\<rparr>],
           usageMessages := [(''hello'', ''example.com'')]\<rparr>)"
    unfolding handleTriggerKey_def Let_def
    by (simp add: page etext div scan found expand')
  show ?thesis
    unfolding expand commit
    by (simp add: undoLastExpansion_def Let_def div setTextContent_def showNotification_def
        textContent_def) (simp add: editableDiv_def pageOf_def)
qed

section \<open>One substitution step against literal replacement\<close>

lemma compileKey_plain:
  "plainKey key \<Longrightarrow> compileKey key = Some (map Lit key)"
  by (induction key) (auto simp: plainKey_def syntaxCharacters_def)

lemma matchHere_literal:
  "matchHere (map Lit p) s = prefix p s"
proof (induction p arbitrary: s)
  case Nil
  show ?case by simp
next
  case (Cons a p)
  show ?case by (cases s) (auto simp: Cons.IH)
qed

lemma placeholderRegex_literal:
  "placeholderRegex (map Lit key) = map Lit (placeholder key)"
  by (simp add: placeholderRegex_def placeholder_def)

lemma getSubstitution_without_dollar:
  "CHR ''$'' \<notin> set tpl \<Longrightarrow> getSubstitution matched passed after tpl = tpl"
  by (induction matched passed after tpl rule: getSubstitution.induct) auto

lemma replaceMatches_literal:
  "CHR ''$'' \<notin> set tpl \<Longrightarrow>
   replaceMatches (map Lit key) tpl passed s = replaceAllLiteral (placeholder key) tpl s"
proof (induction "length s" arbitrary: s passed rule: less_induct)
  case less
  show ?case
  proof (cases s)
    case Nil
    then show ?thesis by simp
  next
    case (Cons c cs)
    have nonempty: "placeholder key \<noteq> []" by (simp add: placeholder_def)
    have len: "length (placeholderRegex (map Lit key)) = length (placeholder key)"
      by (simp add: placeholderRegex_literal)
    show ?thesis
    proof (cases "prefix (placeholder key) (c # cs)")
      case True
      have "length (drop (length (placeholder key)) (c # cs)) < length s"
        using nonempty Cons by (cases "placeholder key") auto
      from less.hyps [OF this less.prems]
      have "replaceMatches (map Lit key) tpl (passed @ take (length (placeholder key)) (c # cs))
              (drop (length (placeholder key)) (c # cs))
            = replaceAllLiteral (placeholder key) tpl (drop (length (placeholder key)) (c # cs))" .
      with True nonempty less.prems show ?thesis
        unfolding Cons
        by (simp add: Let_def len matchHere_literal placeholderRegex_literal
            getSubstitution_without_dollar del: drop_Suc_Cons take_Suc_Cons)
    next
      case False
      have "length cs < length s" using Cons by simp
      from less.hyps [OF this less.prems]
      have "replaceMatches (map Lit key) tpl (passed @ [c]) cs
            = replaceAllLiteral (placeholder key) tpl cs" .
      with False show ?thesis
        unfolding Cons
        by (simp add: Let_def matchHere_literal placeholderRegex_literal)
    qed
  qed
qed

lemma replaceMatches_no_occurrence:
  "\<not> strIncludes s (placeholder key) \<Longrightarrow> replaceMatches (map Lit key) tpl passed s = s"
proof (induction s arbitrary: passed)
  case Nil
  show ?case by simp
next
  case (Cons c cs)
  then show ?case
    by (simp add: Let_def matchHere_literal placeholderRegex_literal)
qed

text \<open>
  C3, amended. For a key without syntax characters of the pattern language, the step of
  the pass for that key replaces every occurrence of the literal \<open>{{key}}\<close>, found from the
  left, and nothing else: a text in which \<open>{{key}}\<close> does not occur, character for character,
  is returned as it is. A value without a dollar sign is inserted as it is by that step,
  and a missing or empty value inserts nothing. Later steps and passes substitute inside
  the inserted values.
\<close>

theorem replaceKey_plain_key_is_literal_replacement:
  "plainKey key
   \<longrightarrow> (CHR ''$'' \<notin> set (orEmpty v)
          \<longrightarrow> replaceKey rx key v s = Inr (replaceAllLiteral (placeholder key) (orEmpty v) s))
       \<and> (\<not> strIncludes s (placeholder key) \<longrightarrow> replaceKey rx key v s = Inr s)"
  by (simp add: replaceKey_def compileKey_plain replaceMatches_literal
      replaceMatches_no_occurrence)

theorem replaceKey_plain_key_is_literal_replacement_witness:
  "plainKey ''domain'' \<and> CHR ''$'' \<notin> set (orEmpty (Some ''example.com''))
   \<and> replaceKey noEngine ''domain'' (Some ''example.com'') ''Hi {{domain}}, {{ domain }}, {{Domain}}!''
       = Inr ''Hi example.com, {{ domain }}, {{Domain}}!''
   \<and> \<not> strIncludes ''{{ domain }}'' (placeholder ''domain'')
   \<and> replaceKey noEngine ''domain'' (Some ''example.com'') ''{{ domain }}'' = Inr ''{{ domain }}''"
proof -
  have plain: "plainKey ''domain''"
    by (simp add: plainKey_def syntaxCharacters_def)
  have dollar: "CHR ''$'' \<notin> set (orEmpty (Some ''example.com''))"
    by (simp add: orEmpty_def)
  have absent: "\<not> strIncludes ''{{ domain }}'' (placeholder ''domain'')"
    by (simp add: placeholder_def)
  from replaceKey_plain_key_is_literal_replacement
    [of "''domain''" "Some ''example.com''" noEngine "''Hi {{domain}}, {{ domain }}, {{Domain}}!''"]
    plain dollar
  have a: "replaceKey noEngine ''domain'' (Some ''example.com'') ''Hi {{domain}}, {{ domain }}, {{Domain}}!''
       = Inr ''Hi example.com, {{ domain }}, {{Domain}}!''"
    by (simp add: placeholder_def orEmpty_def)
  from replaceKey_plain_key_is_literal_replacement
    [of "''domain''" "Some ''example.com''" noEngine "''{{ domain }}''"] plain absent
  have b: "replaceKey noEngine ''domain'' (Some ''example.com'') ''{{ domain }}'' = Inr ''{{ domain }}''"
    by simp
  from plain dollar a absent b show ?thesis by simp
qed

text \<open>
  C3, as stated, fails: the value of \<open>page_title\<close> holds the placeholder of \<open>domain\<close>, which
  the same pass substitutes, so the value substituted for \<open>{{page_title}}\<close> is not part of
  the output.
\<close>

theorem resolveVariables_value_not_verbatim_counterexample:
  "map_of (variables exampleClock
       \<lparr>pageTitle = Some ''Docs - {{domain}}'', pageUrl = None, domain = Some ''example.com'',
        selectedText = None, clipboard = None, formData = []\<rparr>) ''page_title''
     = Some (Some ''Docs - {{domain}}'')
   \<and> strIncludes ''{{page_title}}'' (placeholder ''page_title'')
   \<and> resolveVariables noEngine exampleClock ''{{page_title}}''
       \<lparr>pageTitle = Some ''Docs - {{domain}}'', pageUrl = None, domain = Some ''example.com'',
        selectedText = None, clipboard = None, formData = []\<rparr>
     = Inr ''Docs - example.com''
   \<and> \<not> strIncludes ''Docs - example.com'' ''Docs - {{domain}}''"
  by (simp add: resolver_defs placeholder_def exampleClock_def
      resolveLoop.simps [of _ _ "''{{page_title}}''"]
      resolveLoop.simps [of _ _ "''Docs - example.com''"])

section \<open>Unknown placeholders under keys without syntax characters\<close>

lemma strIncludes_iff:
  "strIncludes s sub \<longleftrightarrow> (\<exists>a b. s = a @ sub @ b)"
proof (induction s)
  case Nil
  show ?case by auto
next
  case (Cons c cs)
  show ?case
  proof
    assume "strIncludes (c # cs) sub"
    then consider "prefix sub (c # cs)" | "strIncludes cs sub" by auto
    then show "\<exists>a b. c # cs = a @ sub @ b"
    proof cases
      case 1
      then obtain b where "c # cs = sub @ b" by (auto simp: prefix_def)
      then have "c # cs = [] @ sub @ b" by simp
      then show ?thesis by blast
    next
      case 2
      with Cons.IH obtain a b where "cs = a @ sub @ b" by blast
      then have "c # cs = (c # a) @ sub @ b" by simp
      then show ?thesis by blast
    qed
  next
    assume "\<exists>a b. c # cs = a @ sub @ b"
    then obtain a b where split: "c # cs = a @ sub @ b" by blast
    show "strIncludes (c # cs) sub"
    proof (cases a)
      case Nil
      with split have "prefix sub (c # cs)" by (simp add: prefix_def)
      then show ?thesis by simp
    next
      case (Cons x a')
      with split have "cs = a' @ sub @ b" by simp
      with Cons.IH have "strIncludes cs sub" by blast
      then show ?thesis by simp
    qed
  qed
qed

lemma prefix_stops_before:
  "prefix w (u @ x # r) \<Longrightarrow> x \<notin> set w \<Longrightarrow> length w \<le> length u"
proof (induction u arbitrary: w)
  case Nil
  then show ?case by (cases w) auto
next
  case (Cons c u)
  then show ?case by (cases w) auto
qed

lemma plainKey_no_brace:
  "plainKey key \<Longrightarrow> CHR ''{'' \<notin> set key \<and> CHR ''}'' \<notin> set key"
  by (auto simp: plainKey_def syntaxCharacters_def list_all_iff)

lemma placeholder_not_straddling:
  assumes "prefix (placeholder key) (a @ placeholder k @ b)" and "a \<noteq> []"
    and "CHR ''{'' \<notin> set key"
  shows "length (placeholder key) \<le> length a"
proof -
  from assms(2) obtain c a' where a: "a = c # a'" by (cases a) auto
  have free: "CHR ''{'' \<notin> set (key @ ''}}'')" using assms(3) by simp
  from assms(1) have rest: "prefix (CHR ''{'' # key @ ''}}'') (a' @ CHR ''{'' # CHR ''{'' # k @ ''}}'' @ b)"
    unfolding a by (auto simp: placeholder_def)
  show ?thesis
  proof (cases a')
    case Nil
    with rest have "prefix (key @ ''}}'') ([] @ CHR ''{'' # k @ ''}}'' @ b)" by simp
    from prefix_stops_before [OF this free] show ?thesis by simp
  next
    case (Cons d a'')
    with rest have "prefix (key @ ''}}'') (a'' @ CHR ''{'' # CHR ''{'' # k @ ''}}'' @ b)" by auto
    from prefix_stops_before [OF this free] show ?thesis
      unfolding a Cons by (simp add: placeholder_def)
  qed
qed

lemma brace_free_prefix_eq:
  "CHR ''}'' \<notin> set key \<Longrightarrow> CHR ''}'' \<notin> set k \<Longrightarrow>
   prefix (key @ CHR ''}'' # r1) (k @ CHR ''}'' # r2) \<Longrightarrow> key = k"
proof (induction key arbitrary: k)
  case Nil
  then show ?case by (cases k) auto
next
  case (Cons c key)
  then show ?case by (cases k) auto
qed

lemma other_placeholder_not_at_start:
  assumes "key \<noteq> k" and "CHR ''}'' \<notin> set key" and "CHR ''}'' \<notin> set k"
  shows "\<not> prefix (placeholder key) (placeholder k @ b)"
proof
  assume "prefix (placeholder key) (placeholder k @ b)"
  then have "prefix (key @ CHR ''}'' # ''}'') (k @ CHR ''}'' # (''}'' @ b))"
    by (simp add: placeholder_def)
  from brace_free_prefix_eq [OF assms(2,3) this] assms(1) show False by simp
qed

lemma replaceMatches_skip:
  "\<not> prefix (placeholder key) (c # cs) \<Longrightarrow>
   replaceMatches (map Lit key) tpl passed (c # cs)
   = c # replaceMatches (map Lit key) tpl (passed @ [c]) cs"
  by (simp add: Let_def matchHere_literal placeholderRegex_literal)

lemma replaceMatches_hit:
  "prefix (placeholder key) (c # cs) \<Longrightarrow>
   replaceMatches (map Lit key) tpl passed (c # cs)
   = getSubstitution (take (length (placeholder key)) (c # cs)) passed
       (drop (length (placeholder key)) (c # cs)) tpl
     @ replaceMatches (map Lit key) tpl (passed @ take (length (placeholder key)) (c # cs))
         (drop (length (placeholder key)) (c # cs))"
  by (simp add: Let_def matchHere_literal placeholderRegex_literal
      del: drop_Suc_Cons take_Suc_Cons)

lemma replaceMatches_copies:
  "CHR ''{'' \<notin> set x \<Longrightarrow>
   replaceMatches (map Lit key) tpl passed (x @ b) = x @ replaceMatches (map Lit key) tpl (passed @ x) b"
proof (induction x arbitrary: passed)
  case Nil
  show ?case by simp
next
  case (Cons c x)
  then have "\<not> prefix (placeholder key) (c # x @ b)"
    by (auto simp: placeholder_def)
  with Cons show ?case
    by (simp add: replaceMatches_skip del: replaceMatches.simps)
qed

lemma replaceMatches_passes_other_placeholder:
  assumes "key \<noteq> k" and "CHR ''}'' \<notin> set key" and "CHR ''{'' \<notin> set k" and "CHR ''}'' \<notin> set k"
  shows "replaceMatches (map Lit key) tpl passed (placeholder k @ b)
         = placeholder k @ replaceMatches (map Lit key) tpl (passed @ placeholder k) b"
proof -
  have first: "\<not> prefix (placeholder key) (CHR ''{'' # CHR ''{'' # k @ ''}}'' @ b)"
    using other_placeholder_not_at_start [OF assms(1,2,4), of b] by (simp add: placeholder_def)
  have second: "\<not> prefix (placeholder key) (CHR ''{'' # k @ ''}}'' @ b)"
    using assms(3) by (cases k) (auto simp: placeholder_def)
  have tail: "CHR ''{'' \<notin> set (k @ ''}}'')" using assms(3) by simp
  have "replaceMatches (map Lit key) tpl passed (placeholder k @ b)
        = CHR ''{'' # CHR ''{'' # replaceMatches (map Lit key) tpl (passed @ ''{{'') ((k @ ''}}'') @ b)"
    using replaceMatches_skip [OF first, of tpl passed]
      replaceMatches_skip [OF second, of tpl "passed @ ''{''"]
    by (simp add: placeholder_def del: replaceMatches.simps)
  also have "\<dots> = CHR ''{'' # CHR ''{'' # (k @ ''}}'')
        @ replaceMatches (map Lit key) tpl ((passed @ ''{{'') @ k @ ''}}'') b"
    using replaceMatches_copies [OF tail, of key tpl "passed @ ''{{''" b]
    by (simp del: replaceMatches.simps)
  finally show ?thesis by (simp add: placeholder_def del: replaceMatches.simps)
qed

lemma replaceMatches_keeps_other_placeholder:
  assumes "key \<noteq> k" and "CHR ''{'' \<notin> set key" and "CHR ''}'' \<notin> set key"
    and "CHR ''{'' \<notin> set k" and "CHR ''}'' \<notin> set k"
  shows "\<exists>a' b'. replaceMatches (map Lit key) tpl passed (a @ placeholder k @ b)
                  = a' @ placeholder k @ b'"
proof (induction "length a" arbitrary: a passed rule: less_induct)
  case less
  show ?case
  proof (cases a)
    case Nil
    with replaceMatches_passes_other_placeholder [OF assms(1,3,4,5), of tpl passed b]
    have "replaceMatches (map Lit key) tpl passed (a @ placeholder k @ b)
          = [] @ placeholder k @ replaceMatches (map Lit key) tpl (passed @ placeholder k) b"
      by simp
    then show ?thesis by blast
  next
    case (Cons c a')
    let ?n = "length (placeholder key)"
    have n: "?n = length key + 4" by (simp add: placeholder_def)
    show ?thesis
    proof (cases "prefix (placeholder key) (a @ placeholder k @ b)")
      case True
      from placeholder_not_straddling [OF True _ assms(2)] Cons
      have fits: "?n \<le> length a" by simp
      then have shorter: "length (drop ?n a) < length a" unfolding n by simp
      from less.hyps [OF shorter]
      obtain x y where
        "replaceMatches (map Lit key) tpl (passed @ take ?n (a @ placeholder k @ b))
           (drop ?n a @ placeholder k @ b) = x @ placeholder k @ y"
        by blast
      moreover have "drop ?n (a @ placeholder k @ b) = drop ?n a @ placeholder k @ b"
        using fits by simp
      moreover have "replaceMatches (map Lit key) tpl passed (a @ placeholder k @ b)
          = getSubstitution (take ?n (a @ placeholder k @ b)) passed
              (drop ?n (a @ placeholder k @ b)) tpl
            @ replaceMatches (map Lit key) tpl (passed @ take ?n (a @ placeholder k @ b))
                (drop ?n (a @ placeholder k @ b))"
        using True replaceMatches_hit [of key c "a' @ placeholder k @ b" tpl passed]
        unfolding Cons by (simp del: replaceMatches.simps drop_Suc_Cons take_Suc_Cons)
      ultimately have "replaceMatches (map Lit key) tpl passed (a @ placeholder k @ b)
          = (getSubstitution (take ?n (a @ placeholder k @ b)) passed
              (drop ?n (a @ placeholder k @ b)) tpl @ x) @ placeholder k @ y"
        by simp
      then show ?thesis by blast
    next
      case False
      have "length a' < length a" using Cons by simp
      from less.hyps [OF this]
      obtain a'' b' where
        "replaceMatches (map Lit key) tpl (passed @ [c]) (a' @ placeholder k @ b)
           = a'' @ placeholder k @ b'"
        by blast
      with False replaceMatches_skip [of key c "a' @ placeholder k @ b" tpl passed]
      have "replaceMatches (map Lit key) tpl passed (a @ placeholder k @ b)
          = (c # a'') @ placeholder k @ b'"
        unfolding Cons by (simp del: replaceMatches.simps)
      then show ?thesis by blast
    qed
  qed
qed

lemma replaceKey_keeps_unknown_placeholder:
  assumes "plainKey key" and "key \<noteq> k" and "CHR ''{'' \<notin> set k" and "CHR ''}'' \<notin> set k"
    and "strIncludes s (placeholder k)"
  shows "\<exists>out. replaceKey rx key v s = Inr out \<and> strIncludes out (placeholder k)"
proof -
  from assms(5) obtain a b where s: "s = a @ placeholder k @ b"
    by (auto simp: strIncludes_iff)
  from plainKey_no_brace [OF assms(1)]
  have free: "CHR ''{'' \<notin> set key" "CHR ''}'' \<notin> set key" by simp_all
  from replaceMatches_keeps_other_placeholder [OF assms(2) free assms(3,4), of "orEmpty v" "[]" a b]
  obtain a' b' where "replaceMatches (map Lit key) (orEmpty v) [] s = a' @ placeholder k @ b'"
    unfolding s by blast
  then show ?thesis
    using assms(1) by (auto simp: replaceKey_def compileKey_plain strIncludes_iff)
qed

lemma forEachKey_keeps_unknown_placeholder:
  "list_all (\<lambda>kv. plainKey (fst kv)) vars \<Longrightarrow> k \<notin> fst ` set vars \<Longrightarrow>
   CHR ''{'' \<notin> set k \<Longrightarrow> CHR ''}'' \<notin> set k \<Longrightarrow> strIncludes s (placeholder k) \<Longrightarrow>
   \<exists>out. forEachKey rx vars s = Inr out \<and> strIncludes out (placeholder k)"
proof (induction vars arbitrary: s)
  case Nil
  then show ?case by simp
next
  case (Cons kv vars)
  obtain key v where kv: "kv = (key, v)" by (cases kv)
  from Cons.prems kv have "plainKey key" "key \<noteq> k" by auto
  from replaceKey_keeps_unknown_placeholder [OF this Cons.prems(3,4,5)]
  obtain r where r: "replaceKey rx key v s = Inr r" "strIncludes r (placeholder k)" by blast
  from Cons.prems have "list_all (\<lambda>kv. plainKey (fst kv)) vars" "k \<notin> fst ` set vars" by simp_all
  from Cons.IH [OF this Cons.prems(3,4) r(2)] r(1) show ?case
    unfolding kv by simp
qed

lemma resolveLoop_keeps_unknown_placeholder:
  "list_all (\<lambda>kv. plainKey (fst kv)) vars \<Longrightarrow> k \<notin> fst ` set vars \<Longrightarrow>
   CHR ''{'' \<notin> set k \<Longrightarrow> CHR ''}'' \<notin> set k \<Longrightarrow> strIncludes s (placeholder k) \<Longrightarrow>
   \<exists>out. fst (resolveLoop rx vars s iterations passes) = Inr out \<and> strIncludes out (placeholder k)"
proof (induction rx vars s iterations passes rule: resolveLoop.induct)
  case (1 rx vars current iterations passes)
  note unfold = resolveLoop.simps [of rx vars current iterations passes]
  from forEachKey_keeps_unknown_placeholder [OF "1.prems", of rx]
  obtain r where r: "forEachKey rx vars current = Inr r" "strIncludes r (placeholder k)"
    by blast
  show ?case
  proof (cases "strIncludes current ''{{'' \<and> iterations < maxIterations")
    case False
    with "1.prems"(5) show ?thesis unfolding unfold by auto
  next
    case enter: True
    show ?thesis
    proof (cases "r = current")
      case True
      with enter r "1.prems"(5) show ?thesis unfolding unfold by auto
    next
      case False
      from "1.IH" [OF enter r(1) False "1.prems"(1-4) r(2)]
      obtain out where "fst (resolveLoop rx vars r (iterations + 1) (passes + 1)) = Inr out"
        "strIncludes out (placeholder k)"
        by blast
      with enter r False show ?thesis unfolding unfold by auto
    qed
  qed
qed

lemma insertIndexKey_keys:
  "fst ` set (insertIndexKey k v ps) = insert k (fst ` set ps)"
proof (induction ps)
  case Nil
  show ?case by simp
next
  case (Cons p ps)
  obtain k' v' where p: "p = (k', v')" by (cases p)
  show ?case
  proof (cases "isArrayIndex k' \<and> indexValue k' < indexValue k")
    case True
    then have "insertIndexKey k v (p # ps) = (k', v') # insertIndexKey k v ps"
      unfolding p by simp
    then show ?thesis using Cons.IH unfolding p by (simp add: insert_commute)
  next
    case False
    then have "insertIndexKey k v (p # ps) = (k, v) # (k', v') # ps"
      unfolding p by auto
    then show ?thesis unfolding p by simp
  qed
qed

lemma objSet_keys:
  "fst ` set (objSet obj k v) = insert k (fst ` set obj)"
proof (cases "k \<in> fst ` set obj")
  case True
  have "fst ` set (map (\<lambda>(k', v'). if k' = k then (k', v) else (k', v')) obj) = fst ` set obj"
    by (induction obj) auto
  with True show ?thesis by (auto simp: objSet_def)
next
  case False
  then show ?thesis by (auto simp: objSet_def insertIndexKey_keys)
qed

lemma foldl_objSet_keys:
  "fst ` set (foldl (\<lambda>obj (k, v). objSet obj k v) obj fd) = fst ` set obj \<union> fst ` set fd"
proof (induction fd arbitrary: obj)
  case Nil
  show ?case by simp
next
  case (Cons kv fd)
  obtain k v where "kv = (k, v)" by (cases kv)
  with Cons.IH [of "objSet obj k v"] show ?case by (simp add: objSet_keys)
qed

lemma variables_keys:
  "fst ` set (variables now ctx) = set ambientKeys \<union> fst ` set (formData ctx)"
  by (simp add: variables_def foldl_objSet_keys ambientKeys_def)

lemma ambientKeys_plain:
  "key \<in> set ambientKeys \<Longrightarrow> plainKey key"
  by (auto simp: ambientKeys_def plainKey_def syntaxCharacters_def)

text \<open>
  When every named value of \<open>formData\<close> has a key without syntax characters, a placeholder
  whose content has no brace and is no key of the table is still part of the output.
\<close>

lemma resolveVariables_keeps_unknown_placeholder:
  assumes plain: "list_all (\<lambda>kv. plainKey (fst kv)) (formData ctx)"
    and unknown: "k \<notin> set ambientKeys" "k \<notin> fst ` set (formData ctx)"
    and braces: "CHR ''{'' \<notin> set k" "CHR ''}'' \<notin> set k"
    and occurs: "strIncludes s (placeholder k)"
  shows "\<exists>out. resolveVariables rx now s ctx = Inr out \<and> strIncludes out (placeholder k)"
proof -
  have "\<forall>key \<in> fst ` set (variables now ctx). plainKey key"
    using plain ambientKeys_plain by (auto simp: variables_keys list_all_iff)
  then have keys: "list_all (\<lambda>kv. plainKey (fst kv)) (variables now ctx)"
    by (simp add: list_all_iff)
  from unknown have "k \<notin> fst ` set (variables now ctx)"
    by (simp add: variables_keys)
  from resolveLoop_keeps_unknown_placeholder [OF keys this braces occurs, of rx 0 0]
  show ?thesis by (simp add: resolveVariables_def resolveRun_def)
qed

text \<open>The replacement is a template: a dollar sign in a value is not copied as it is.\<close>

lemma replaceKey_value_with_dollar_signs:
  "replaceKey rx ''clipboard'' (Some ''$$5 for $&'') ''Pay {{clipboard}}''
   = Inr ''Pay $5 for {{clipboard}}''"
  by (simp add: replaceKey_def placeholderRegex_def syntaxCharacters_def orEmpty_def)

section \<open>A key with a dot\<close>

text \<open>
  C8 fails on the code. With the named value \<open>a.c\<close> in \<open>formData\<close>, the placeholder \<open>{{abc}}\<close>,
  whose content is no key of the variable table, is replaced by the value of \<open>a.c\<close>: the dot
  of the key is a wildcard of the pattern. The placeholder \<open>{{a.c}}\<close> is replaced as well,
  and a placeholder that no pattern matches stays.
\<close>

theorem resolveVariables_dot_key_rewrites_unknown_placeholder:
  "''abc'' \<notin> fst ` set (variables exampleClock
       \<lparr>pageTitle = None, pageUrl = None, domain = None, selectedText = None,
        clipboard = None, formData = [(''a.c'', Some ''X'')]\<rparr>)
   \<and> resolveVariables noEngine exampleClock ''{{abc}}''
       \<lparr>pageTitle = None, pageUrl = None, domain = None, selectedText = None,
        clipboard = None, formData = [(''a.c'', Some ''X'')]\<rparr>
     = Inr ''X''
   \<and> resolveVariables noEngine exampleClock ''{{abc}} {{a.c}} {{abd}}''
       \<lparr>pageTitle = None, pageUrl = None, domain = None, selectedText = None,
        clipboard = None, formData = [(''a.c'', Some ''X'')]\<rparr>
     = Inr ''X X {{abd}}''"
  by (simp add: resolver_defs exampleClock_def
      resolveLoop.simps [of _ _ "''{{abc}}''"]
      resolveLoop.simps [of _ _ "''X''"]
      resolveLoop.simps [of _ _ "''{{abc}} {{a.c}} {{abd}}''"]
      resolveLoop.simps [of _ _ "''X X {{abd}}''"])

section \<open>A commit from the key to the splice\<close>

text \<open>
  The commit of \<^verbatim>\<open>:hello\<close> in the text \<^verbatim>\<open>say :hello \<close> with the cursor behind the trigger,
  for the snippet \<^verbatim>\<open>Hi {{domain}}!\<close> on a page of \<^verbatim>\<open>example.com\<close>: the key is suppressed,
  the text becomes \<^verbatim>\<open>say Hi example.com! \<close> with the cursor behind the inserted text, one
  record is pushed, and the guard is free again.
\<close>

lemma commit_end_to_end:
  assumes st: "st = (pageOf (textareaWith ''say :hello '' 10))
      \<lparr>config := defaultConfig
         \<lparr>snippets := [''hello'' \<mapsto> \<lparr>content = ''Hi {{domain}}!'', description = []\<rparr>]\<rparr>\<rparr>"
  shows "handleTriggerKey st connectedEnv 0
    = ((Normal,
        st\<lparr>expansionHistory :=
             [\<lparr>element = 0, originalText = ''say :hello '', trigger = ''hello'',
               startPos = Num 4, endPos = Num 10, expandedContent = ''Hi example.com!'',
               timestamp = 0\<rparr>],
           elements := (elements st)
             (0 := (textareaWith ''say Hi example.com! '' 19)\<lparr>inputEvents := 1\<rparr>),
           usageMessages := [(''hello'', ''example.com'')]\<rparr>),
       True)"
proof -
  have scan: "scanTrigger '':'' ''say :hello '' (Num 10)
      = Some \<lparr>spanTrigger = ''hello'', spanStart = Num 4, spanEnd = Num 10\<rparr>"
    by (simp add: scanTrigger_def triggerHere_def isTriggerChar_def isWordChar_def isDigit_def)
  have found: "getProperty (snippets (config st)) ''hello''
      = Own \<lparr>content = ''Hi {{domain}}!'', description = []\<rparr>"
    by (simp add: st getProperty_def)
  have reply: "resolver connectedEnv (Some ''Hi {{domain}}!'') (getExpansionContext connectedEnv)
      = Fulfilled (Some \<lparr>resolved = ''Hi example.com!'', tokens = 4\<rparr>)"
    by (simp add: connectedEnv_def backgroundReply_def getExpansionContext_def resolver_defs
        exampleClock_def estimateTokens_def
        resolveLoop.simps [of _ _ "''Hi {{domain}}!''"]
        resolveLoop.simps [of _ _ "''Hi example.com!''"])
  have wrap: "applyTemplateWrapping dict ''Hi example.com!'' = ''Hi example.com!''" for dict
    by (simp add: applyTemplateWrapping_def templateMatch_def)
  have splice: "replaceText (textareaWith ''say :hello '' 10) (Num 4) (Num 10) ''Hi example.com!''
      = (Normal, (textareaWith ''say Hi example.com! '' 19)\<lparr>inputEvents := 1\<rparr>)"
    by (simp add: replaceText_def setSelection_def textareaWith_def orEmpty_def)
  have page: "triggerPrefix (config st) = '':''" "elements st ref = textareaWith ''say :hello '' 10"
    "expansionHistory st = []" "usageMessages st = []" for ref
    by (simp_all add: st pageOf_def defaultConfig_def)
  have el: "elementText (textareaWith ''say :hello '' 10) = ''say :hello ''"
    "selectionStart (textareaWith ''say :hello '' 10) = Num 10"
    by (simp_all add: elementText_def textareaWith_def)
  have expand: "expandSnippet st connectedEnv 0 ''hello'' (Num 4) (Num 10)
    = (Normal,
        st\<lparr>expansionHistory :=
             [\<lparr>element = 0, originalText = ''say :hello '', trigger = ''hello'',
               startPos = Num 4, endPos = Num 10, expandedContent = ''Hi example.com!'',
               timestamp = 0\<rparr>],
           elements := (elements st)
             (0 := (textareaWith ''say Hi example.com! '' 19)\<lparr>inputEvents := 1\<rparr>),
           usageMessages := [(''hello'', ''example.com'')]\<rparr>)"
    unfolding expandSnippet_def Let_def
    by (simp add: found reply wrap page el splice)
       (simp add: st pageOf_def connectedEnv_def)
  show ?thesis
    unfolding handleTriggerKey_def Let_def
    by (simp add: page el scan found expand)
qed

end
